theory Spec2Isabelle
  imports Complex_Main
begin

section \<open>Flight price prediction engine: data model\<close>

text \<open>
  The engine lives in \<^verbatim>\<open>backend/pipeline.py\<close> (class \<^verbatim>\<open>FlightPriceModel\<close>) and is driven
  by the request handler \<^verbatim>\<open>predict\<close> of \<^verbatim>\<open>backend/main.py\<close>.

  Python floats are idealised as real numbers: there is no rounding and no infinity.
  A missing numeric value (pandas' NaN) is the cell \<open>NaN\<close>, and an absent optional
  argument (Python's \<^verbatim>\<open>None\<close>) is \<open>None\<close>.
\<close>

subsection \<open>Fixed vocabularies\<close>

definition ALLOWED_AIRLINES :: "string list" where
  "ALLOWED_AIRLINES =
     [''Vistara'', ''Air_India'', ''Indigo'', ''GO_FIRST'', ''AirAsia'', ''SpiceJet'', ''Unknown'']"

definition ALLOWED_CITIES :: "string list" where
  "ALLOWED_CITIES = [''Delhi'', ''Mumbai'', ''Bangalore'', ''Kolkata'', ''Hyderabad'', ''Chennai'']"

definition ALLOWED_TIMES :: "string list" where
  "ALLOWED_TIMES =
     [''Early_Morning'', ''Morning'', ''Afternoon'', ''Evening'', ''Night'', ''Late_Night'', ''Unknown'']"

definition ALLOWED_STOPS :: "string list" where
  "ALLOWED_STOPS = [''zero'', ''one'', ''two_or_more'']"

definition ALLOWED_CLASS :: "string list" where
  "ALLOWED_CLASS = [''Economy'', ''Business'']"

definition STOPS_MAP :: "string \<rightharpoonup> int" where
  "STOPS_MAP = [''zero'' \<mapsto> 0, ''one'' \<mapsto> 1, ''two_or_more'' \<mapsto> 2]"

definition CLASS_MAP :: "string \<rightharpoonup> int" where
  "CLASS_MAP = [''Economy'' \<mapsto> 0, ''Business'' \<mapsto> 1]"

subsection \<open>Errors, data frames, the model object\<close>

datatype error = AssertionError | KeyError | ValueError | FileNotFoundError

text \<open>
  A pandas data frame is a list of column names and a list of rows; a row gives a cell
  to every column name (what it gives to a name that is not a column is never read).
\<close>

datatype cell = Str string | Num real | NaN

type_synonym row = "string \<Rightarrow> cell"

record frame =
  columns :: "string list"
  rows :: "row list"

record RouteMedians =
  route_to_duration_median :: "string \<times> string \<rightharpoonup> real"
  global_duration_median :: real

text \<open>
  The fitted scikit-learn pipeline is a library object. Of it the engine uses: the
  aggregate prediction for the first row of a frame (\<^verbatim>\<open>pipeline.predict(features)[0]\<close>),
  the preprocessor's encoding of a frame, the prediction of each member tree on an encoded
  frame (\<^verbatim>\<open>est.predict(...)[0]\<close>), and the one-hot encoder's output feature names.
\<close>

type_synonym encoded = "real list"

record Pipeline =
  sk_predict :: "frame \<Rightarrow> real"
  sk_transform :: "frame \<Rightarrow> encoded"
  estimators :: "(encoded \<Rightarrow> real) list"
  ohe_feature_names :: "string list"

text \<open>
  The version tags \<^verbatim>\<open>f"rf-{n}"\<close> and \<^verbatim>\<open>f"loaded-{n}"\<close>. Names are the source's, without
  the underscore that \<^verbatim>\<open>estimators_\<close>, \<^verbatim>\<open>feature_names_out_\<close> and the private methods carry.
\<close>

datatype version_tag = Rf int | Loaded int

record FlightPriceModel =
  pipeline :: "Pipeline option"
  route_medians :: "RouteMedians option"
  feature_names_out :: "string list option"
  model_path :: "string option"
  model_version :: "version_tag option"

definition init_model :: FlightPriceModel where
  "init_model = \<lparr>pipeline = None, route_medians = None, feature_names_out = None,
                 model_path = None, model_version = None\<rparr>"

section \<open>Duration imputation\<close>

definition impute_duration ::
  "FlightPriceModel \<Rightarrow> string \<Rightarrow> string \<Rightarrow> real option \<Rightarrow> error + (real \<times> bool \<times> real)" where
  "impute_duration self source_city destination_city duration =
     (if duration \<noteq> None \<and> the duration > 0 then Inr (the duration, False, 0)
      else case route_medians self of
             None \<Rightarrow> Inl AssertionError
           | Some rm \<Rightarrow>
               let key = (source_city, destination_city);
                   imputed = (case route_to_duration_median rm key of
                                Some v \<Rightarrow> v
                              | None \<Rightarrow> global_duration_median rm)
               in Inr (imputed, True, imputed))"

section \<open>Uncertainty estimation\<close>

text \<open>
  \<^verbatim>\<open>numpy.std\<close> with its default \<^verbatim>\<open>ddof=0\<close>: the square root of the mean of the
  squared deviations from the mean, the sum divided by the number \<open>n\<close> of values. On
  the empty list numpy gives NaN, which the reals do not have; the properties below are
  stated for a forest with at least one member, as every fitted forest has.
\<close>

definition np_mean :: "real list \<Rightarrow> real" where
  "np_mean xs = sum_list xs / real (length xs)"

definition np_std :: "real list \<Rightarrow> real" where
  "np_std xs = sqrt (np_mean (map (\<lambda>x. (x - np_mean xs)\<^sup>2) xs))"

definition predict_with_uncertainty ::
  "FlightPriceModel \<Rightarrow> frame \<Rightarrow> error + (real \<times> real \<times> real)" where
  "predict_with_uncertainty self features =
     (case pipeline self of
        None \<Rightarrow> Inl AssertionError
      | Some p \<Rightarrow>
          let pred = sk_predict p features;
              trees = map (\<lambda>est. est (sk_transform p features)) (estimators p);
              std = np_std trees;
              lower = pred - 1.96 * std;
              upper = pred + 1.96 * std
          in Inr (pred, lower, upper))"

section \<open>Local contributions\<close>

text \<open>\<^verbatim>\<open>df[col] = value\<close>: every row gets the value; a new column is appended.\<close>

definition set_column :: "string \<Rightarrow> cell \<Rightarrow> frame \<Rightarrow> frame" where
  "set_column col v df =
     df\<lparr>columns := (if col \<in> set (columns df) then columns df else columns df @ [col]),
        rows := map (\<lambda>r. r(col := v)) (rows df)\<rparr>"

text \<open>\<^verbatim>\<open>toggled[c] = instance[c]\<close> for a column \<open>c\<close> of \<open>instance\<close>; rows are aligned by position.\<close>

definition copy_column :: "string \<Rightarrow> frame \<Rightarrow> frame \<Rightarrow> frame" where
  "copy_column c instance toggled =
     toggled\<lparr>columns := (if c \<in> set (columns toggled) then columns toggled
                          else columns toggled @ [c]),
             rows := map (\<lambda>(r, ri). r(c := ri c)) (zip (rows toggled) (rows instance))\<rparr>"

text \<open>The baseline of \<^verbatim>\<open>local_contributions\<close> (the statements under "Build baseline").\<close>

definition build_baseline :: "FlightPriceModel \<Rightarrow> frame \<Rightarrow> error + frame" where
  "build_baseline self instance =
     (let base = fold (\<lambda>col b. if col \<in> set (columns b) then set_column col (Str ''Unknown'') b
                                else b)
                      [''airline'', ''departure_time'', ''arrival_time''] instance
      in if ''duration'' \<in> set (columns base)
         then (case route_medians self of
                 None \<Rightarrow> Inl AssertionError
               | Some rm \<Rightarrow> Inr (set_column ''duration'' (Num (global_duration_median rm)) base))
         else Inr base)"

definition groups :: "(string \<times> string list) list" where
  "groups =
     [(''class'', [''class'']),
      (''stops'', [''stops'']),
      (''days_left'', [''days_left'']),
      (''duration'', [''duration'']),
      (''airline'', [''airline'']),
      (''source_city'', [''source_city'']),
      (''departure_time'', [''departure_time'']),
      (''arrival_time'', [''arrival_time'']),
      (''destination_city'', [''destination_city''])]"

record Contributor =
  feature :: string
  contribution :: real
  direction :: string

text \<open>The inner loop \<^verbatim>\<open>for c in cols\<close>; reading a column the instance lacks raises.\<close>

fun toggle :: "frame \<Rightarrow> frame \<Rightarrow> string list \<Rightarrow> error + frame" where
  "toggle instance toggled [] = Inr toggled"
| "toggle instance toggled (c # cs) =
     (if c \<in> set (columns instance) then toggle instance (copy_column c instance toggled) cs
      else Inl KeyError)"

text \<open>The outer loop \<^verbatim>\<open>for name, cols in groups\<close>, appending to \<open>contribs\<close>.\<close>

fun contribs_loop ::
  "FlightPriceModel \<Rightarrow> frame \<Rightarrow> frame \<Rightarrow> real \<Rightarrow> (string \<times> string list) list \<Rightarrow>
   Contributor list \<Rightarrow> error + Contributor list" where
  "contribs_loop self instance base base_pred [] contribs = Inr contribs"
| "contribs_loop self instance base base_pred ((name, cols) # gs) contribs =
     (case toggle instance base cols of
        Inl e \<Rightarrow> Inl e
      | Inr toggled \<Rightarrow>
          (case predict_with_uncertainty self toggled of
             Inl e \<Rightarrow> Inl e
           | Inr (pred, _, _) \<Rightarrow>
               let delta = pred - base_pred
               in contribs_loop self instance base base_pred gs
                    (contribs @ [\<lparr>feature = name, contribution = \<bar>delta\<bar>,
                                  direction = (if delta \<ge> 0 then ''+'' else ''-'')\<rparr>])))"

text \<open>
  \<^verbatim>\<open>contribs.sort(key=..., reverse=True)\<close> is a stable sort by descending key: records
  with equal keys keep their order. \<open>sort_key\<close> on the negated key is the same order.
\<close>

definition sort_contribs :: "Contributor list \<Rightarrow> Contributor list" where
  "sort_contribs contribs = sort_key (\<lambda>x. - contribution x) contribs"

definition local_contributions :: "FlightPriceModel \<Rightarrow> frame \<Rightarrow> error + Contributor list" where
  "local_contributions self instance =
     (if pipeline self = None then Inl AssertionError
      else case build_baseline self instance of
             Inl e \<Rightarrow> Inl e
           | Inr base \<Rightarrow>
               (case predict_with_uncertainty self base of
                  Inl e \<Rightarrow> Inl e
                | Inr (base_pred, _, _) \<Rightarrow>
                    (case predict_with_uncertainty self instance of
                       Inl e \<Rightarrow> Inl e
                     | Inr (curr_pred, _, _) \<Rightarrow>
                         (case contribs_loop self instance base base_pred groups [] of
                            Inl e \<Rightarrow> Inl e
                          | Inr contribs \<Rightarrow> Inr (take 5 (sort_contribs contribs))))))"

section \<open>Training\<close>

text \<open>
  Library functions the training path calls: Python's \<^verbatim>\<open>str\<close> of a number, the parsing
  of a string as a number (\<^verbatim>\<open>pandas.to_numeric\<close>, \<^verbatim>\<open>astype(float)\<close>), and the fitting of
  the scikit-learn pipeline on the features \<open>X\<close> and the target \<open>y\<close>.
\<close>

record externals =
  py_str :: "real \<Rightarrow> string"
  to_number :: "string \<Rightarrow> real option"
  fit :: "frame \<Rightarrow> real list \<Rightarrow> error + Pipeline"

text \<open>Python's \<^verbatim>\<open>int(x)\<close> and \<^verbatim>\<open>astype(int)\<close> on a float: truncation towards zero.\<close>

definition py_int :: "real \<Rightarrow> int" where
  "py_int x = (if x \<ge> 0 then \<lfloor>x\<rfloor> else \<lceil>x\<rceil>)"

definition drop_columns :: "string list \<Rightarrow> frame \<Rightarrow> frame" where
  "drop_columns cs df = df\<lparr>columns := filter (\<lambda>c. c \<notin> set cs) (columns df)\<rparr>"

definition astype_str :: "externals \<Rightarrow> cell \<Rightarrow> string" where
  "astype_str ext v = (case v of Str s \<Rightarrow> s | Num x \<Rightarrow> py_str ext x | NaN \<Rightarrow> ''nan'')"

text \<open>
  The body of the loop over the categorical columns:
  \<^verbatim>\<open>df[col] = df[col].astype(str); df[col] = df[col].where(df[col].isin(allowed), "Unknown")\<close>.
\<close>

definition normalize_value :: "externals \<Rightarrow> string list \<Rightarrow> cell \<Rightarrow> cell" where
  "normalize_value ext allowed v =
     (let s = astype_str ext v in if s \<in> set allowed then Str s else Str ''Unknown'')"

definition normalize_column :: "externals \<Rightarrow> string \<times> string list \<Rightarrow> frame \<Rightarrow> frame" where
  "normalize_column ext ca df =
     (case ca of (col, allowed) \<Rightarrow>
        if col \<in> set (columns df)
        then df\<lparr>rows := map (\<lambda>r. r(col := normalize_value ext allowed (r col))) (rows df)\<rparr>
        else df)"

definition categorical_columns :: "(string \<times> string list) list" where
  "categorical_columns =
     [(''airline'', ALLOWED_AIRLINES),
      (''source_city'', ALLOWED_CITIES),
      (''departure_time'', ALLOWED_TIMES),
      (''arrival_time'', ALLOWED_TIMES),
      (''destination_city'', ALLOWED_CITIES)]"

text \<open>
  \<^verbatim>\<open>df[col].map(M).astype(int)\<close>: a value that is not a key of \<open>M\<close> maps to NaN, and the
  cast of a column holding NaN to \<^verbatim>\<open>int\<close> raises.
\<close>

definition lookup_code :: "(string \<rightharpoonup> int) \<Rightarrow> cell \<Rightarrow> int option" where
  "lookup_code m v = (case v of Str s \<Rightarrow> m s | Num x \<Rightarrow> None | NaN \<Rightarrow> None)"

definition map_codes :: "(string \<rightharpoonup> int) \<Rightarrow> string \<Rightarrow> frame \<Rightarrow> error + frame" where
  "map_codes m col df =
     (if col \<in> set (columns df)
      then (if list_all (\<lambda>r. lookup_code m (r col) \<noteq> None) (rows df)
            then Inr (df\<lparr>rows := map (\<lambda>r. r(col := Num (of_int (the (lookup_code m (r col))))))
                                     (rows df)\<rparr>)
            else Inl ValueError)
      else Inr df)"

text \<open>\<^verbatim>\<open>pd.to_numeric(..., errors="coerce")\<close> on one cell.\<close>

definition to_numeric :: "externals \<Rightarrow> cell \<Rightarrow> cell" where
  "to_numeric ext v =
     (case v of
        Str s \<Rightarrow> (case to_number ext s of Some x \<Rightarrow> Num x | None \<Rightarrow> NaN)
      | Num x \<Rightarrow> Num x
      | NaN \<Rightarrow> NaN)"

text \<open>
  \<^verbatim>\<open>.fillna(0).clip(lower=0).astype(int)\<close> after \<open>to_numeric\<close>. The cast is to a 64-bit
  integer; the model is the truncation, which it is for every value below \<open>2\<^sup>6\<^sup>3\<close>.
\<close>

definition clean_days_left :: "externals \<Rightarrow> cell \<Rightarrow> cell" where
  "clean_days_left ext v =
     (let x = (case to_numeric ext v of Num x \<Rightarrow> x | Str s \<Rightarrow> 0 | NaN \<Rightarrow> 0)
      in Num (of_int (py_int (max x 0))))"

definition map_cells :: "string \<Rightarrow> (cell \<Rightarrow> cell) \<Rightarrow> frame \<Rightarrow> frame" where
  "map_cells col f df =
     (if col \<in> set (columns df)
      then df\<lparr>rows := map (\<lambda>r. r(col := f (r col))) (rows df)\<rparr>
      else df)"

definition prepare_training_frame :: "externals \<Rightarrow> frame \<Rightarrow> error + frame" where
  "prepare_training_frame ext df0 =
     (let df1 = drop_columns (filter (\<lambda>col. col \<in> set (columns df0)) [''Unnamed: 0'', ''flight'']) df0;
          df2 = fold (normalize_column ext) categorical_columns df1
      in case map_codes STOPS_MAP ''stops'' df2 of
           Inl e \<Rightarrow> Inl e
         | Inr df3 \<Rightarrow>
             (case map_codes CLASS_MAP ''class'' df3 of
                Inl e \<Rightarrow> Inl e
              | Inr df4 \<Rightarrow>
                  Inr (map_cells ''duration'' (to_numeric ext)
                        (map_cells ''days_left'' (clean_days_left ext) df4))))"

subsection \<open>Route medians\<close>

text \<open>
  The median of pandas: the middle value of the sorted values, or the mean of the two
  middle values when their number is even. It is only taken of non-empty lists here.
\<close>

definition median :: "real list \<Rightarrow> real" where
  "median xs =
     (let s = sort xs; n = length s
      in if n mod 2 = 1 then s ! (n div 2)
         else (s ! (n div 2 - 1) + s ! (n div 2)) / 2)"

text \<open>
  The duration column of the prepared frame holds numbers and NaN only
  (\<open>to_numeric\<close> above). \<^verbatim>\<open>dropna(subset=["duration"])\<close> keeps the rows with a number.
\<close>

definition known_duration :: "row \<Rightarrow> real option" where
  "known_duration r = (case r ''duration'' of Num x \<Rightarrow> Some x | Str s \<Rightarrow> None | NaN \<Rightarrow> None)"

definition dropna_duration :: "row list \<Rightarrow> row list" where
  "dropna_duration rs = filter (\<lambda>r. known_duration r \<noteq> None) rs"

text \<open>The group key of a row; \<^verbatim>\<open>groupby\<close> leaves out a row with a missing key.\<close>

definition route_key :: "row \<Rightarrow> (string \<times> string) option" where
  "route_key r =
     (case r ''source_city'' of
        Str a \<Rightarrow> (case r ''destination_city'' of Str b \<Rightarrow> Some (a, b) | Num x \<Rightarrow> None | NaN \<Rightarrow> None)
      | Num x \<Rightarrow> None
      | NaN \<Rightarrow> None)"

fun add_to_group :: "'k \<Rightarrow> 'v \<Rightarrow> ('k \<times> 'v list) list \<Rightarrow> ('k \<times> 'v list) list" where
  "add_to_group k v [] = [(k, [v])]"
| "add_to_group k v ((k', vs) # gs) =
     (if k = k' then (k', vs @ [v]) # gs else (k', vs) # add_to_group k v gs)"

text \<open>
  \<^verbatim>\<open>groupby(["source_city", "destination_city"])["duration"]\<close>: one group per key, the
  rows taken in order.
\<close>

definition group_step ::
  "row \<Rightarrow> ((string \<times> string) \<times> real list) list \<Rightarrow> ((string \<times> string) \<times> real list) list" where
  "group_step r gs =
     (case route_key r of
        None \<Rightarrow> gs
      | Some k \<Rightarrow> (case known_duration r of None \<Rightarrow> gs | Some d \<Rightarrow> add_to_group k d gs))"

definition groupby_duration :: "row list \<Rightarrow> ((string \<times> string) \<times> real list) list" where
  "groupby_duration rs = fold group_step rs []"

definition build_route_medians :: "frame \<Rightarrow> RouteMedians" where
  "build_route_medians df =
     (if set [''source_city'', ''destination_city'', ''duration''] \<subseteq> set (columns df)
      then let route_group = map (\<lambda>(k, ds). (k, median ds))
                               (groupby_duration (dropna_duration (rows df)));
               route_to_duration = map_of route_group;
               durations = List.map_filter known_duration (rows df);
               global_med = (if durations \<noteq> [] then median durations else 2.0)
           in \<lparr>route_to_duration_median = route_to_duration, global_duration_median = global_med\<rparr>
      else \<lparr>route_to_duration_median = Map.empty, global_duration_median = 2.0\<rparr>)"

subsection \<open>Train or load\<close>

text \<open>
  The bundle persisted with \<^verbatim>\<open>joblib.dump\<close>; the key \<^verbatim>\<open>"model_version"\<close> may be absent
  (it is read with \<^verbatim>\<open>loaded.get\<close>).
\<close>

record artifact =
  art_pipeline :: Pipeline
  art_route_medians :: RouteMedians
  art_feature_names_out :: "string list"
  art_model_version :: "version_tag option"

text \<open>
  What the process and the file system hold: the module-level singleton, the dataset
  file and the model file (each, when it exists, with its content and modification time),
  and the wall clock \<^verbatim>\<open>time.time()\<close>.
\<close>

record world =
  MODEL_SINGLETON :: FlightPriceModel
  csv_file :: "(frame \<times> real) option"
  model_file :: "(artifact \<times> real) option"
  clock :: real

definition astype_float :: "externals \<Rightarrow> cell list \<Rightarrow> error + real list" where
  "astype_float ext vs =
     (let xs = map (\<lambda>v. case to_numeric ext v of Num x \<Rightarrow> Some x | Str s \<Rightarrow> None | NaN \<Rightarrow> None) vs
      in if list_all (\<lambda>x. x \<noteq> None) xs then Inr (map the xs) else Inl ValueError)"

text \<open>
  The part of \<^verbatim>\<open>train_or_load\<close> under "Train fresh". A run that raises is the error
  alone: what it had already stored in the singleton is not modelled, and the properties
  below speak of calls that return.
\<close>

definition train_fresh :: "externals \<Rightarrow> world \<Rightarrow> FlightPriceModel \<Rightarrow> error + world" where
  "train_fresh ext w self =
     (case csv_file w of
        None \<Rightarrow> Inl FileNotFoundError
      | Some (df_raw, _) \<Rightarrow>
          (case prepare_training_frame ext df_raw of
             Inl e \<Rightarrow> Inl e
           | Inr df \<Rightarrow>
               let rm = build_route_medians df
               in if ''price'' \<notin> set (columns df) then Inl KeyError
                  else (case astype_float ext (map (\<lambda>r. r ''price'') (rows df)) of
                          Inl e \<Rightarrow> Inl e
                        | Inr y \<Rightarrow>
                            (case fit ext (drop_columns [''price''] df) y of
                               Inl e \<Rightarrow> Inl e
                             | Inr p \<Rightarrow>
                                 let names = [''duration'', ''days_left'', ''stops'', ''class'']
                                             @ ohe_feature_names p;
                                     version = Rf (py_int (clock w));
                                     self' = self\<lparr>pipeline := Some p,
                                                  route_medians := Some rm,
                                                  feature_names_out := Some names,
                                                  model_version := Some version\<rparr>
                                 in Inr (w\<lparr>MODEL_SINGLETON := self',
                                          model_file :=
                                            Some (\<lparr>art_pipeline = p, art_route_medians = rm,
                                                   art_feature_names_out = names,
                                                   art_model_version = Some version\<rparr>,
                                                  clock w)\<rparr>)))))"

definition train_or_load :: "externals \<Rightarrow> world \<Rightarrow> error + world" where
  "train_or_load ext w =
     (let self = (MODEL_SINGLETON w)\<lparr>model_path := Some ''backend/model.joblib''\<rparr>;
          csv_mtime = (case csv_file w of Some (_, t) \<Rightarrow> t | None \<Rightarrow> 0);
          model_mtime = (case model_file w of Some (_, t) \<Rightarrow> t | None \<Rightarrow> 0)
      in case model_file w of
           Some (loaded, _) \<Rightarrow>
             if model_mtime \<ge> csv_mtime
             then Inr (w\<lparr>MODEL_SINGLETON :=
                          self\<lparr>pipeline := Some (art_pipeline loaded),
                               route_medians := Some (art_route_medians loaded),
                               feature_names_out := Some (art_feature_names_out loaded),
                               model_version :=
                                 Some (case art_model_version loaded of
                                         Some v \<Rightarrow> v
                                       | None \<Rightarrow> Loaded (py_int model_mtime))\<rparr>\<rparr>)
             else train_fresh ext w self
         | None \<Rightarrow> train_fresh ext w self)"

definition load_or_train_model :: "externals \<Rightarrow> world \<Rightarrow> error + (world \<times> FlightPriceModel)" where
  "load_or_train_model ext w =
     (if pipeline (MODEL_SINGLETON w) = None
      then (case train_or_load ext w of
              Inl e \<Rightarrow> Inl e
            | Inr w' \<Rightarrow> Inr (w', MODEL_SINGLETON w'))
      else Inr (w, MODEL_SINGLETON w))"

section \<open>The request handler\<close>

text \<open>
  \<^verbatim>\<open>predict\<close> of \<^verbatim>\<open>backend/main.py\<close>. The payload has passed the validation of
  \<^verbatim>\<open>PredictRequest\<close>. The append to the prediction log is best effort, its failures are
  swallowed and it does not touch the response; it is left out.
\<close>

record PredictRequest =
  req_source_city :: string
  req_destination_city :: string
  req_class :: string
  req_stops :: string
  req_days_left :: int
  req_duration :: "real option"
  req_airline :: "string option"
  req_departure_time :: "string option"
  req_arrival_time :: "string option"
  req_flight :: "string option"

record assumption =
  assumed_value :: cell
  imputed :: bool
  method_name :: string
  hint :: "string option"

record PredictResponse =
  predicted_price :: real
  lower_bound :: real
  upper_bound :: real
  top_contributors :: "Contributor list"
  assumptions_used :: "string \<rightharpoonup> assumption"
  echo :: PredictRequest

text \<open>\<^verbatim>\<open>data.get(field) or "Unknown"\<close>: \<^verbatim>\<open>None\<close> and the empty string are falsy.\<close>

definition or_unknown :: "string option \<Rightarrow> string" where
  "or_unknown v = (case v of None \<Rightarrow> ''Unknown'' | Some s \<Rightarrow> if s = [] then ''Unknown'' else s)"

definition feature_row :: "PredictRequest \<Rightarrow> int \<Rightarrow> real \<Rightarrow> frame" where
  "feature_row payload stops_code duration =
     \<lparr>columns = [''source_city'', ''destination_city'', ''class'', ''stops'', ''days_left'',
                 ''duration'', ''airline'', ''departure_time'', ''arrival_time''],
      rows = [(\<lambda>_. NaN)
                (''source_city'' := Str (req_source_city payload),
                 ''destination_city'' := Str (req_destination_city payload),
                 ''class'' := Num (if req_class payload = ''Business'' then 1 else 0),
                 ''stops'' := Num (of_int stops_code),
                 ''days_left'' := Num (of_int (req_days_left payload)),
                 ''duration'' := Num duration,
                 ''airline'' := Str (or_unknown (req_airline payload)),
                 ''departure_time'' := Str (or_unknown (req_departure_time payload)),
                 ''arrival_time'' := Str (or_unknown (req_arrival_time payload)))]\<rparr>"

definition assumptions_of :: "PredictRequest \<Rightarrow> real \<Rightarrow> bool \<Rightarrow> string \<rightharpoonup> assumption" where
  "assumptions_of payload duration was_imputed =
     fold (\<lambda>(cat_field, raw) assumptions.
             if or_unknown raw = ''Unknown'' \<and> (raw = None \<or> raw = Some [])
             then assumptions(cat_field \<mapsto>
                    \<lparr>assumed_value = Str (or_unknown raw), imputed = True,
                     method_name = ''default_unknown'', hint = None\<rparr>)
             else assumptions)
          [(''airline'', req_airline payload),
           (''departure_time'', req_departure_time payload),
           (''arrival_time'', req_arrival_time payload)]
          (if was_imputed
           then [''duration'' \<mapsto>
                   \<lparr>assumed_value = Num duration, imputed = True, method_name = ''route_median'',
                    hint = Some ''No duration provided; using typical median for this route.''\<rparr>]
           else Map.empty)"

definition predict :: "externals \<Rightarrow> world \<Rightarrow> PredictRequest \<Rightarrow> error + (world \<times> PredictResponse)" where
  "predict ext w payload =
     (case load_or_train_model ext w of
        Inl e \<Rightarrow> Inl e
      | Inr (w', model) \<Rightarrow>
          (case impute_duration model (req_source_city payload) (req_destination_city payload)
                  (req_duration payload) of
             Inl e \<Rightarrow> Inl e
           | Inr (duration, was_imputed, imputed_value) \<Rightarrow>
               (case STOPS_MAP (req_stops payload) of
                  None \<Rightarrow> Inl KeyError
                | Some stops_code \<Rightarrow>
                    let X = feature_row payload stops_code duration
                    in (case predict_with_uncertainty model X of
                          Inl e \<Rightarrow> Inl e
                        | Inr (pred, lower, upper) \<Rightarrow>
                            (case local_contributions model X of
                               Inl e \<Rightarrow> Inl e
                             | Inr contribs \<Rightarrow>
                                 Inr (w', \<lparr>predicted_price = pred,
                                           lower_bound = max lower 0.0,
                                           upper_bound = max upper 0.0,
                                           top_contributors = contribs,
                                           assumptions_used =
                                             assumptions_of payload duration was_imputed,
                                           echo = payload\<rparr>))))))"

section \<open>Notions used to state the properties\<close>

text \<open>
  The sample standard deviation as statistics defines it, with the divisor \<open>n - 1\<close>
  (this follows the wording of the specification, not the code).
\<close>

definition sample_std :: "real list \<Rightarrow> real" where
  "sample_std xs =
     sqrt (sum_list (map (\<lambda>x. (x - np_mean xs)\<^sup>2) xs) / (real (length xs) - 1))"

text \<open>
  The delta of a feature group: the prediction on the baseline with that group's column
  restored from the instance, minus the prediction on the baseline; and the record the
  loop appends for it.
\<close>

definition variant_delta :: "Pipeline \<Rightarrow> frame \<Rightarrow> frame \<Rightarrow> string \<Rightarrow> real" where
  "variant_delta p instance base name =
     sk_predict p (copy_column name instance base) - sk_predict p base"

definition contrib_of :: "Pipeline \<Rightarrow> frame \<Rightarrow> frame \<Rightarrow> string \<Rightarrow> Contributor" where
  "contrib_of p instance base name =
     \<lparr>feature = name, contribution = \<bar>variant_delta p instance base name\<bar>,
      direction = (if variant_delta p instance base name \<ge> 0 then ''+'' else ''-'')\<rparr>"

text \<open>The known durations of the records of one route, and of all records.\<close>

definition route_durations :: "frame \<Rightarrow> string \<times> string \<Rightarrow> real list" where
  "route_durations df k =
     List.map_filter known_duration (filter (\<lambda>r. route_key r = Some k) (rows df))"

definition all_durations :: "frame \<Rightarrow> real list" where
  "all_durations df = List.map_filter known_duration (rows df)"

section \<open>A small trained model, for concrete runs\<close>

definition example_medians :: RouteMedians where
  "example_medians =
     \<lparr>route_to_duration_median = [(''Delhi'', ''Mumbai'') \<mapsto> 2.5], global_duration_median = 3\<rparr>"

text \<open>
  A forest of two trees whose mean is the pipeline's prediction: the price of a row is
  its duration minus 2, plus 3 for the airline Vistara, plus 4 for business class; one
  tree says 1 less, the other 1 more.
\<close>

definition example_price :: "row \<Rightarrow> real" where
  "example_price r =
     (case r ''duration'' of Num x \<Rightarrow> x - 2 | Str s \<Rightarrow> 0 | NaN \<Rightarrow> 0)
     + (if r ''airline'' = Str ''Vistara'' then 3 else 0)
     + (if r ''class'' = Num 1 then 4 else 0)"

definition example_pipeline :: Pipeline where
  "example_pipeline =
     \<lparr>sk_predict = (\<lambda>df. case rows df of [] \<Rightarrow> 0 | r # rs \<Rightarrow> example_price r),
      sk_transform = (\<lambda>df. case rows df of [] \<Rightarrow> [] | r # rs \<Rightarrow> [example_price r]),
      estimators = [\<lambda>enc. sum_list enc - 1, \<lambda>enc. sum_list enc + 1],
      ohe_feature_names = []\<rparr>"

definition example_model :: FlightPriceModel where
  "example_model =
     init_model\<lparr>pipeline := Some example_pipeline, route_medians := Some example_medians\<rparr>"

text \<open>
  Two requests: the first leaves duration, airline and time bands out; the second gives
  a duration and an airline. Their feature rows are the ones the handler builds.
\<close>

definition example_request :: PredictRequest where
  "example_request =
     \<lparr>req_source_city = ''Delhi'', req_destination_city = ''Mumbai'', req_class = ''Economy'',
      req_stops = ''zero'', req_days_left = 10, req_duration = None, req_airline = None,
      req_departure_time = None, req_arrival_time = None, req_flight = None\<rparr>"

definition example_instance :: frame where
  "example_instance = feature_row example_request 0 2.5"

text \<open>What the two trees say on that feature row.\<close>

definition example_tree_predictions :: "real list" where
  "example_tree_predictions =
     map (\<lambda>est. est (sk_transform example_pipeline example_instance))
         (estimators example_pipeline)"

definition vistara_request :: PredictRequest where
  "vistara_request =
     example_request\<lparr>req_duration := Some 1, req_airline := Some ''Vistara''\<rparr>"

definition vistara_instance :: frame where
  "vistara_instance = feature_row vistara_request 0 1"

definition example_externals :: externals where
  "example_externals =
     \<lparr>py_str = (\<lambda>x. ''0.0''), to_number = (\<lambda>s. None), fit = (\<lambda>X y. Inr example_pipeline)\<rparr>"

definition example_world :: world where
  "example_world =
     \<lparr>MODEL_SINGLETON = example_model, csv_file = None, model_file = None, clock = 0\<rparr>"

definition example_base :: frame where
  "example_base = feature_row example_request 0 3"

definition example_top5 :: "Contributor list" where
  "example_top5 =
     [\<lparr>feature = ''duration'', contribution = 0.5, direction = ''-''\<rparr>,
      \<lparr>feature = ''class'', contribution = 0, direction = ''+''\<rparr>,
      \<lparr>feature = ''stops'', contribution = 0, direction = ''+''\<rparr>,
      \<lparr>feature = ''days_left'', contribution = 0, direction = ''+''\<rparr>,
      \<lparr>feature = ''airline'', contribution = 0, direction = ''+''\<rparr>]"

definition vistara_top5 :: "Contributor list" where
  "vistara_top5 =
     [\<lparr>feature = ''airline'', contribution = 3, direction = ''+''\<rparr>,
      \<lparr>feature = ''duration'', contribution = 2, direction = ''-''\<rparr>,
      \<lparr>feature = ''class'', contribution = 0, direction = ''+''\<rparr>,
      \<lparr>feature = ''stops'', contribution = 0, direction = ''+''\<rparr>,
      \<lparr>feature = ''days_left'', contribution = 0, direction = ''+''\<rparr>]"

definition example_response :: PredictResponse where
  "example_response =
     \<lparr>predicted_price = 0.5, lower_bound = 0, upper_bound = 2.46,
      top_contributors = example_top5,
      assumptions_used = assumptions_of example_request 2.5 True,
      echo = example_request\<rparr>"

text \<open>Training data: one route with the durations 6, 2 and 4, and a route without any.\<close>

definition training_row :: "string \<Rightarrow> string \<Rightarrow> cell \<Rightarrow> row" where
  "training_row src dst dur =
     (\<lambda>_. NaN)(''source_city'' := Str src, ''destination_city'' := Str dst, ''duration'' := dur)"

definition example_training_frame :: frame where
  "example_training_frame =
     \<lparr>columns = [''source_city'', ''destination_city'', ''duration''],
      rows = [training_row ''Delhi'' ''Mumbai'' (Num 6),
              training_row ''Delhi'' ''Mumbai'' (Num 2),
              training_row ''Mumbai'' ''Delhi'' NaN,
              training_row ''Delhi'' ''Mumbai'' (Num 4)]\<rparr>"

definition missing_duration_frame :: frame where
  "missing_duration_frame =
     \<lparr>columns = [''source_city'', ''destination_city'', ''duration''],
      rows = [training_row ''Delhi'' ''Mumbai'' NaN]\<rparr>"

text \<open>
  A raw dataset of two records; in the second, every categorical field is out of
  vocabulary or missing.
\<close>

definition example_raw_frame :: frame where
  "example_raw_frame =
     \<lparr>columns = [''airline'', ''flight'', ''source_city'', ''departure_time'', ''stops'',
                 ''arrival_time'', ''destination_city'', ''class'', ''duration'', ''days_left'',
                 ''price''],
      rows = [(\<lambda>_. NaN)
                (''airline'' := Str ''Vistara'', ''flight'' := Str ''UK-963'',
                 ''source_city'' := Str ''Delhi'', ''departure_time'' := Str ''Morning'',
                 ''stops'' := Str ''zero'', ''arrival_time'' := Str ''Afternoon'',
                 ''destination_city'' := Str ''Mumbai'', ''class'' := Str ''Economy'',
                 ''duration'' := Num 2, ''days_left'' := Num 1, ''price'' := Num 5955),
              (\<lambda>_. NaN)
                (''airline'' := Str ''vistara'', ''flight'' := Str ''UK-000'',
                 ''source_city'' := Str ''Pune'', ''departure_time'' := NaN,
                 ''stops'' := Str ''one'', ''arrival_time'' := Str ''noon'',
                 ''destination_city'' := Str ''Goa'', ''class'' := Str ''Business'',
                 ''duration'' := NaN, ''days_left'' := Num 3, ''price'' := Num 9000)]\<rparr>"

text \<open>A process that has not yet initialised its model, next to a persisted artifact.\<close>

definition example_artifact :: artifact where
  "example_artifact =
     \<lparr>art_pipeline = example_pipeline, art_route_medians = example_medians,
      art_feature_names_out = [''duration'', ''days_left'', ''stops'', ''class''],
      art_model_version = Some (Rf 1700000000)\<rparr>"

definition cold_world :: world where
  "cold_world =
     \<lparr>MODEL_SINGLETON = init_model, csv_file = Some (example_raw_frame, 5),
      model_file = Some (example_artifact, 7), clock = 9\<rparr>"

text \<open>The same process after the dataset file was touched: the artifact is stale.\<close>

definition stale_world :: world where
  "stale_world = cold_world\<lparr>csv_file := Some (example_raw_frame, 8)\<rparr>"

definition loaded_model :: FlightPriceModel where
  "loaded_model =
     \<lparr>pipeline = Some example_pipeline, route_medians = Some example_medians,
      feature_names_out = Some [''duration'', ''days_left'', ''stops'', ''class''],
      model_path = Some ''backend/model.joblib'', model_version = Some (Rf 1700000000)\<rparr>"


section \<open>Properties of duration imputation\<close>

text \<open>
  Claim C1. For every origin, destination and optional duration: a supplied duration
  strictly greater than 0 is returned unchanged with \<open>wasImputed = False\<close>; otherwise (no
  duration, or one not greater than 0) the result is flagged \<open>wasImputed = True\<close> and its
  value is the median stored for the exact pair when the pair is a key of the route table,
  and the global median when it is not. (The imputing branch needs the route medians to
  be there, as every trained or loaded model has them.)
\<close>

theorem impute_duration_contract:
  "(\<forall>x. duration = Some x \<and> 0 < x \<longrightarrow>
      (\<exists>iv. impute_duration self src dst duration = Inr (x, False, iv))) \<and>
   (\<forall>rm. route_medians self = Some rm \<and> \<not> (\<exists>x. duration = Some x \<and> 0 < x) \<longrightarrow>
      (\<exists>v iv. impute_duration self src dst duration = Inr (v, True, iv) \<and>
         ((src, dst) \<in> dom (route_to_duration_median rm) \<longrightarrow>
            route_to_duration_median rm (src, dst) = Some v) \<and>
         ((src, dst) \<notin> dom (route_to_duration_median rm) \<longrightarrow>
            v = global_duration_median rm)))"
  by (auto simp: impute_duration_def Let_def split: option.splits)

theorem impute_duration_contract_witness:
  "impute_duration example_model ''Delhi'' ''Mumbai'' (Some 4) = Inr (4, False, 0) \<and>
   impute_duration example_model ''Delhi'' ''Mumbai'' None = Inr (2.5, True, 2.5) \<and>
   impute_duration example_model ''Delhi'' ''Mumbai'' (Some 0) = Inr (2.5, True, 2.5) \<and>
   impute_duration example_model ''Mumbai'' ''Delhi'' None = Inr (3, True, 3)"
  using impute_duration_contract [of "Some 4" example_model "''Delhi''" "''Mumbai''"]
        impute_duration_contract [of None example_model "''Delhi''" "''Mumbai''"]
        impute_duration_contract [of None example_model "''Mumbai''" "''Delhi''"]
  by (simp add: impute_duration_def example_model_def example_medians_def init_model_def Let_def)

text \<open>
  Claim C9. Whenever \<open>impute_duration\<close> does not impute (the flag is \<open>False\<close>, which
  happens exactly for a supplied duration strictly greater than 0) the third component of
  its result is 0; whenever it imputes, the first and the third component are equal.
\<close>

theorem impute_duration_third_component:
  "impute_duration self src dst duration = Inr (v, was_imputed, iv) \<Longrightarrow>
     (\<not> was_imputed \<longrightarrow> (\<exists>x. duration = Some x \<and> 0 < x) \<and> iv = 0) \<and>
     (was_imputed \<longrightarrow> \<not> (\<exists>x. duration = Some x \<and> 0 < x) \<and> v = iv)"
  by (auto simp: impute_duration_def Let_def split: option.splits if_splits)

theorem impute_duration_third_component_witness:
  "impute_duration example_model ''Delhi'' ''Mumbai'' (Some 4) = Inr (4, False, 0) \<and>
   impute_duration example_model ''Delhi'' ''Mumbai'' None = Inr (2.5, True, 2.5)"
  using impute_duration_third_component
          [of example_model "''Delhi''" "''Mumbai''" "Some 4" 4 False 0]
        impute_duration_third_component
          [of example_model "''Delhi''" "''Mumbai''" None "2.5" True "2.5"]
  by (simp add: impute_duration_def example_model_def example_medians_def init_model_def Let_def)

section \<open>Facts about the estimator, the loader and the handler\<close>

lemma np_std_nonneg: "0 \<le> np_std xs"
proof -
  have "0 \<le> sum_list (map (\<lambda>x. (x - np_mean xs)\<^sup>2) xs)"
    by (rule sum_list_nonneg) auto
  then show ?thesis
    by (simp add: np_std_def np_mean_def [of "map f ys" for f ys])
qed

lemma np_std_pair: "np_std [x - 1, x + 1] = 1"
  by (simp add: np_std_def np_mean_def power2_eq_square)

lemma pwu_Some:
  "pipeline self = Some p \<Longrightarrow>
   predict_with_uncertainty self features =
     Inr (sk_predict p features,
          sk_predict p features
            - 1.96 * np_std (map (\<lambda>est. est (sk_transform p features)) (estimators p)),
          sk_predict p features
            + 1.96 * np_std (map (\<lambda>est. est (sk_transform p features)) (estimators p)))"
  by (simp add: predict_with_uncertainty_def Let_def)

lemma pwu_InrD:
  "predict_with_uncertainty self features = Inr (p, l, u) \<Longrightarrow> l \<le> p \<and> p \<le> u"
  using np_std_nonneg
  by (auto simp: predict_with_uncertainty_def Let_def split: option.splits)

text \<open>Running the estimator on the feature row of the first request.\<close>

lemma example_pipeline_loaded: "pipeline example_model = Some example_pipeline"
  by (simp add: example_model_def init_model_def)

lemma example_instance_row:
  "\<exists>r. rows example_instance = [r] \<and> example_price r = 0.5"
  by (simp add: example_instance_def feature_row_def example_price_def example_request_def
      or_unknown_def)

lemma example_trees: "example_tree_predictions = [- 0.5, 1.5]"
  using example_instance_row by (auto simp: example_tree_predictions_def example_pipeline_def)

lemma pwu_example:
  "predict_with_uncertainty example_model example_instance = Inr (0.5, - 1.46, 2.46)"
proof -
  have s: "np_std [- (1 / 2), 3 / 2] = 1"
    using np_std_pair [of "1 / 2"] by simp
  obtain r where r: "rows example_instance = [r]" "example_price r = 0.5"
    using example_instance_row by auto
  show ?thesis
    by (simp add: predict_with_uncertainty_def example_model_def example_pipeline_def
        init_model_def Let_def r s)
qed


lemma train_fresh_pipeline:
  "train_fresh ext w self = Inr w' \<Longrightarrow> pipeline (MODEL_SINGLETON w') \<noteq> None"
  by (auto simp: train_fresh_def Let_def split: option.splits sum.splits if_splits prod.splits)

lemma train_or_load_pipeline:
  "train_or_load ext w = Inr w' \<Longrightarrow> pipeline (MODEL_SINGLETON w') \<noteq> None"
  by (auto simp: train_or_load_def Let_def dest: train_fresh_pipeline
      split: option.splits if_splits prod.splits)

lemma load_or_train_model_result:
  assumes "load_or_train_model ext w = Inr (w1, m1)"
  shows "m1 = MODEL_SINGLETON w1 \<and> pipeline m1 \<noteq> None"
  using assms
  by (auto simp: load_or_train_model_def dest: train_or_load_pipeline split: if_splits sum.splits)

lemma predict_InrD:
  assumes "predict ext w payload = Inr (w', resp)"
  shows "\<exists>X l u. predict_with_uncertainty (MODEL_SINGLETON w') X
                    = Inr (predicted_price resp, l, u) \<and>
                  lower_bound resp = max l 0 \<and> upper_bound resp = max u 0"
proof -
  from assms obtain model where lm: "load_or_train_model ext w = Inr (w', model)"
    by (auto simp: predict_def Let_def split: sum.splits option.splits prod.splits)
  then have m: "model = MODEL_SINGLETON w'"
    using load_or_train_model_result by blast
  from assms lm m show ?thesis
    by (fastforce simp: predict_def Let_def split: sum.splits option.splits prod.splits)
qed


section \<open>The contribution loop in closed form\<close>

lemma contribs_loop_single:
  assumes "pipeline self = Some p" and "\<forall>g\<in>set gs. snd g = [fst g]"
  shows "contribs_loop self instance base (sk_predict p base) gs acc =
           (if \<forall>g\<in>set gs. fst g \<in> set (columns instance)
            then Inr (acc @ map (\<lambda>g. contrib_of p instance base (fst g)) gs)
            else Inl KeyError)"
  using assms(2)
proof (induction gs arbitrary: acc)
  case Nil
  then show ?case by simp
next
  case (Cons g gs)
  obtain name cols where g: "g = (name, cols)" by (cases g)
  with Cons.prems have cols: "cols = [name]" by simp
  from Cons.prems have rest: "\<forall>g\<in>set gs. snd g = [fst g]" by simp
  show ?case
  proof (cases "name \<in> set (columns instance)")
    case True
    then show ?thesis
      using Cons.IH [OF rest]
      by (simp add: g cols pwu_Some [OF assms(1)] Let_def contrib_of_def variant_delta_def)
  next
    case False
    then show ?thesis by (simp add: g cols)
  qed
qed

lemma groups_single: "\<forall>g\<in>set groups. snd g = [fst g]"
  by (simp add: groups_def)

lemma local_contributions_eq:
  assumes "pipeline self = Some p" and "build_baseline self instance = Inr base"
  shows "local_contributions self instance =
           (if \<forall>g\<in>set groups. fst g \<in> set (columns instance)
            then Inr (take 5 (sort_contribs
                               (map (\<lambda>g. contrib_of p instance base (fst g)) groups)))
            else Inl KeyError)"
  using contribs_loop_single [OF assms(1) groups_single, of "instance" base "[]"]
  by (simp add: local_contributions_def assms pwu_Some [OF assms(1)])

lemma local_contributions_InrD:
  assumes "local_contributions self instance = Inr cs"
  obtains p base where "pipeline self = Some p" and "build_baseline self instance = Inr base"
    and "cs = take 5 (sort_contribs (map (\<lambda>g. contrib_of p instance base (fst g)) groups))"
proof -
  from assms obtain p where p: "pipeline self = Some p"
    by (auto simp: local_contributions_def split: if_splits)
  from assms p obtain base where b: "build_baseline self instance = Inr base"
    by (auto simp: local_contributions_def split: if_splits sum.splits)
  from assms local_contributions_eq [OF p b]
  have "cs = take 5 (sort_contribs (map (\<lambda>g. contrib_of p instance base (fst g)) groups))"
    by (auto split: if_splits)
  with p b that show thesis by blast
qed

lemma sort_contribs_sorted:
  "sorted_wrt (\<lambda>a b. contribution a \<ge> contribution b) (sort_contribs xs)"
proof -
  have "sorted (map (\<lambda>x. - contribution x) (sort_contribs xs))"
    by (simp add: sort_contribs_def)
  then show ?thesis
    by (simp add: sorted_wrt_map)
qed

lemma set_sort_contribs: "set (sort_contribs xs) = set xs"
  by (simp add: sort_contribs_def)

lemma build_baseline_rows:
  assumes "build_baseline self instance = Inr base"
      and "set [''airline'', ''departure_time'', ''arrival_time'', ''duration'']
             \<subseteq> set (columns instance)"
  shows "\<exists>rm. route_medians self = Some rm \<and> columns base = columns instance \<and>
           rows base = map (\<lambda>r. r(''airline'' := Str ''Unknown'',
                                   ''departure_time'' := Str ''Unknown'',
                                   ''arrival_time'' := Str ''Unknown'',
                                   ''duration'' := Num (global_duration_median rm)))
                           (rows instance)"
  using assms
  by (auto simp: build_baseline_def set_column_def Let_def split: option.splits if_splits)

subsection \<open>The two requests, run\<close>

lemma example_baseline: "build_baseline example_model example_instance = Inr example_base"
  by (simp add: build_baseline_def example_model_def init_model_def example_medians_def
      example_instance_def example_base_def feature_row_def set_column_def
      example_request_def or_unknown_def fun_upd_twist Let_def)

lemma vistara_baseline: "build_baseline example_model vistara_instance = Inr example_base"
  by (simp add: build_baseline_def example_model_def init_model_def example_medians_def
      vistara_instance_def example_base_def feature_row_def set_column_def vistara_request_def
      example_request_def or_unknown_def fun_upd_twist Let_def)

lemma example_columns: "\<forall>g\<in>set groups. fst g \<in> set (columns example_instance)"
  by (simp add: groups_def example_instance_def feature_row_def)

lemma vistara_columns: "\<forall>g\<in>set groups. fst g \<in> set (columns vistara_instance)"
  by (simp add: groups_def vistara_instance_def feature_row_def)

lemma example_deltas:
  "map (\<lambda>g. variant_delta example_pipeline example_instance example_base (fst g)) groups =
     [0, 0, 0, - 0.5, 0, 0, 0, 0, 0]"
  by (simp add: groups_def variant_delta_def example_pipeline_def example_base_def
      example_instance_def feature_row_def copy_column_def example_price_def
      example_request_def or_unknown_def)

lemma vistara_deltas:
  "map (\<lambda>g. variant_delta example_pipeline vistara_instance example_base (fst g)) groups =
     [0, 0, 0, - 2, 3, 0, 0, 0, 0]"
  by (simp add: groups_def variant_delta_def example_pipeline_def example_base_def
      vistara_instance_def feature_row_def copy_column_def example_price_def
      vistara_request_def example_request_def or_unknown_def)

lemma example_contribs:
  "map (\<lambda>g. contrib_of example_pipeline example_instance example_base (fst g)) groups =
     [\<lparr>feature = ''class'', contribution = 0, direction = ''+''\<rparr>,
      \<lparr>feature = ''stops'', contribution = 0, direction = ''+''\<rparr>,
      \<lparr>feature = ''days_left'', contribution = 0, direction = ''+''\<rparr>,
      \<lparr>feature = ''duration'', contribution = 0.5, direction = ''-''\<rparr>,
      \<lparr>feature = ''airline'', contribution = 0, direction = ''+''\<rparr>,
      \<lparr>feature = ''source_city'', contribution = 0, direction = ''+''\<rparr>,
      \<lparr>feature = ''departure_time'', contribution = 0, direction = ''+''\<rparr>,
      \<lparr>feature = ''arrival_time'', contribution = 0, direction = ''+''\<rparr>,
      \<lparr>feature = ''destination_city'', contribution = 0, direction = ''+''\<rparr>]"
  using example_deltas by (simp add: contrib_of_def groups_def)

lemma vistara_contribs:
  "map (\<lambda>g. contrib_of example_pipeline vistara_instance example_base (fst g)) groups =
     [\<lparr>feature = ''class'', contribution = 0, direction = ''+''\<rparr>,
      \<lparr>feature = ''stops'', contribution = 0, direction = ''+''\<rparr>,
      \<lparr>feature = ''days_left'', contribution = 0, direction = ''+''\<rparr>,
      \<lparr>feature = ''duration'', contribution = 2, direction = ''-''\<rparr>,
      \<lparr>feature = ''airline'', contribution = 3, direction = ''+''\<rparr>,
      \<lparr>feature = ''source_city'', contribution = 0, direction = ''+''\<rparr>,
      \<lparr>feature = ''departure_time'', contribution = 0, direction = ''+''\<rparr>,
      \<lparr>feature = ''arrival_time'', contribution = 0, direction = ''+''\<rparr>,
      \<lparr>feature = ''destination_city'', contribution = 0, direction = ''+''\<rparr>]"
  using vistara_deltas by (simp add: contrib_of_def groups_def)

lemma example_local_contributions:
  "local_contributions example_model example_instance = Inr example_top5"
  unfolding local_contributions_eq [OF example_pipeline_loaded example_baseline] example_contribs
  using example_columns by (simp add: sort_contribs_def example_top5_def)

lemma vistara_local_contributions:
  "local_contributions example_model vistara_instance = Inr vistara_top5"
  unfolding local_contributions_eq [OF example_pipeline_loaded vistara_baseline] vistara_contribs
  using vistara_columns by (simp add: sort_contribs_def vistara_top5_def)

lemma example_predict:
  "predict example_externals example_world example_request = Inr (example_world, example_response)"
proof -
  have l: "load_or_train_model example_externals example_world = Inr (example_world, example_model)"
    by (simp add: load_or_train_model_def example_world_def example_pipeline_loaded)
  have i: "impute_duration example_model (req_source_city example_request)
             (req_destination_city example_request) (req_duration example_request)
           = Inr (2.5, True, 2.5)"
    by (simp add: impute_duration_def example_model_def init_model_def example_medians_def
        example_request_def Let_def)
  have s: "STOPS_MAP (req_stops example_request) = Some 0"
    by (simp add: STOPS_MAP_def example_request_def)
  have x: "feature_row example_request 0 (5 / 2) = example_instance"
    by (simp add: example_instance_def)
  show ?thesis
    by (simp add: predict_def l i s Let_def x pwu_example example_local_contributions
        example_response_def)
qed


section \<open>Properties of the uncertainty interval\<close>

text \<open>
  Claim C2, as stated, fails: \<open>predict_with_uncertainty\<close> returns the raw interval. For
  the first request the point estimate is 0.5, the two trees say -0.5 and 1.5, and the
  lower bound returned is 0.5 - 1.96 = -1.46, a negative number.
\<close>

theorem predict_with_uncertainty_negative_lower:
  "predict_with_uncertainty example_model example_instance = Inr (0.5, - 1.46, 2.46) \<and>
   (- 1.46 :: real) < 0"
  using pwu_example by simp

text \<open>
  Claim C2, amended. \<open>predict_with_uncertainty\<close> returns \<open>(point, lower, upper)\<close> with
  \<open>lower \<le> point \<le> upper\<close> and does not clamp. The clamp is the request handler's: the
  response of \<open>predict\<close> reports \<open>max lower 0\<close> and \<open>max upper 0\<close> of the estimator's
  bounds, so both reported bounds are at least 0 and the point estimate is at most the
  reported upper bound; the reported lower bound is at most the point estimate whenever
  the point estimate is itself not negative.
\<close>

theorem interval_order_and_handler_clamp:
  "(\<forall>pl p l u. pipeline self = Some pl \<and> estimators pl \<noteq> [] \<and>
       predict_with_uncertainty self features = Inr (p, l, u) \<longrightarrow> l \<le> p \<and> p \<le> u) \<and>
   (\<forall>w' resp pl. predict ext w payload = Inr (w', resp) \<and>
       pipeline (MODEL_SINGLETON w') = Some pl \<and> estimators pl \<noteq> [] \<longrightarrow>
       (\<exists>X l u. predict_with_uncertainty (MODEL_SINGLETON w') X
                   = Inr (predicted_price resp, l, u) \<and>
                 lower_bound resp = max l 0 \<and> upper_bound resp = max u 0) \<and>
       0 \<le> lower_bound resp \<and> 0 \<le> upper_bound resp \<and>
       lower_bound resp \<le> upper_bound resp \<and>
       predicted_price resp \<le> upper_bound resp \<and>
       (0 \<le> predicted_price resp \<longrightarrow> lower_bound resp \<le> predicted_price resp))"
proof (intro conjI allI impI)
  fix pl p l u
  assume "pipeline self = Some pl \<and> estimators pl \<noteq> [] \<and>
          predict_with_uncertainty self features = Inr (p, l, u)"
  then show "l \<le> p" "p \<le> u" using pwu_InrD by blast+
next
  fix w' resp pl
  assume a: "predict ext w payload = Inr (w', resp) \<and>
             pipeline (MODEL_SINGLETON w') = Some pl \<and> estimators pl \<noteq> []"
  from a predict_InrD obtain X l u where
    x: "predict_with_uncertainty (MODEL_SINGLETON w') X = Inr (predicted_price resp, l, u)"
       "lower_bound resp = max l 0" "upper_bound resp = max u 0"
    by blast
  from pwu_InrD [OF x(1)] have o: "l \<le> predicted_price resp" "predicted_price resp \<le> u"
    by simp_all
  show "\<exists>X l u. predict_with_uncertainty (MODEL_SINGLETON w') X
                   = Inr (predicted_price resp, l, u) \<and>
                 lower_bound resp = max l 0 \<and> upper_bound resp = max u 0"
    using x by blast
  show "0 \<le> lower_bound resp" "0 \<le> upper_bound resp" using x by simp_all
  show "lower_bound resp \<le> upper_bound resp" using x o by simp
  show "predicted_price resp \<le> upper_bound resp" using x o by simp
  show "lower_bound resp \<le> predicted_price resp" if "0 \<le> predicted_price resp"
    using x o that by simp
qed

theorem interval_order_and_handler_clamp_witness:
  "predict_with_uncertainty example_model example_instance = Inr (0.5, - 1.46, 2.46) \<and>
   predict example_externals example_world example_request
     = Inr (example_world, example_response) \<and>
   predicted_price example_response = 0.5 \<and>
   lower_bound example_response = 0 \<and>
   upper_bound example_response = 2.46"
proof -
  have e: "pipeline (MODEL_SINGLETON example_world) = Some example_pipeline"
          "estimators example_pipeline \<noteq> []"
    by (simp_all add: example_world_def example_pipeline_loaded example_pipeline_def)
  show ?thesis
    using interval_order_and_handler_clamp
            [of example_model example_instance example_externals example_world example_request]
          pwu_example example_predict example_pipeline_loaded e
    by (simp add: example_response_def)
qed

text \<open>
  Claim C3, as stated, fails: the deviation the code takes is not the sample standard
  deviation. For the two tree predictions -0.5 and 1.5 the sample standard deviation is
  the square root of 2, and the interval of the claim differs from the one returned.
\<close>

theorem sample_std_interval_differs:
  "example_tree_predictions = [- 0.5, 1.5] \<and>
   sample_std example_tree_predictions = sqrt 2 \<and>
   predict_with_uncertainty example_model example_instance
     \<noteq> Inr (0.5, 0.5 - 1.96 * sample_std example_tree_predictions,
               0.5 + 1.96 * sample_std example_tree_predictions)"
proof -
  have s: "sample_std example_tree_predictions = sqrt 2"
    by (simp add: example_trees sample_std_def np_mean_def power2_eq_square)
  have g: "x = 1" if "(0.5 :: real) - 1.96 * x = - 1.46" for x
    using that by simp
  have "(0.5 :: real) - 1.96 * sqrt 2 \<noteq> - 1.46"
  proof
    assume "(0.5 :: real) - 1.96 * sqrt 2 = - 1.46"
    then have "sqrt 2 = 1" by (rule g)
    then show False by simp
  qed
  then show ?thesis
    using example_trees pwu_example s by simp
qed

text \<open>
  Claim C3, amended. The interval returned is \<open>[point - 1.96 * s, point + 1.96 * s]\<close>
  where \<open>point\<close> is the pipeline's prediction and \<open>s\<close> is the population standard
  deviation of the per-tree predictions: the square root of the sum of their squared
  deviations from their mean, divided by their number \<open>n\<close> (not by \<open>n - 1\<close>).
\<close>

theorem uncertainty_interval:
  assumes "pipeline self = Some pl" and "estimators pl \<noteq> []"
      and "predict_with_uncertainty self features = Inr (p, l, u)"
  shows "let trees = map (\<lambda>est. est (sk_transform pl features)) (estimators pl);
             n = real (length trees);
             mean = sum_list trees / n;
             s = sqrt (sum_list (map (\<lambda>t. (t - mean)\<^sup>2) trees) / n)
         in p = sk_predict pl features \<and> l = p - 1.96 * s \<and> u = p + 1.96 * s"
  using assms(3) unfolding pwu_Some [OF assms(1)]
  by (simp add: Let_def np_std_def np_mean_def)

theorem uncertainty_interval_witness:
  "predict_with_uncertainty example_model example_instance = Inr (0.5, - 1.46, 2.46) \<and>
   (- 1.46 :: real) = 0.5 - 1.96 * sqrt (((- 0.5 - 0.5)\<^sup>2 + (1.5 - 0.5)\<^sup>2) / 2) \<and>
   (2.46 :: real) = 0.5 + 1.96 * sqrt (((- 0.5 - 0.5)\<^sup>2 + (1.5 - 0.5)\<^sup>2) / 2)"
proof -
  have e: "estimators example_pipeline \<noteq> []"
    by (simp add: example_pipeline_def)
  show ?thesis
    using uncertainty_interval [OF example_pipeline_loaded e pwu_example] pwu_example
    by (simp add: example_trees [unfolded example_tree_predictions_def] Let_def)
qed

section \<open>Properties of the local contributions\<close>

text \<open>
  Claim C4. For every input instance on which \<open>local_contributions\<close> returns, the result
  has at most 5 records, it is sorted by descending magnitude, every record belongs to one
  of the nine feature groups, its magnitude is the absolute value of the difference between
  the prediction on the variant (the baseline with that group restored) and the prediction
  on the baseline, and its direction is "+" or "-".
\<close>

theorem local_contributions_top5:
  assumes "local_contributions self instance = Inr cs"
  shows "length cs \<le> 5 \<and>
         sorted_wrt (\<lambda>a b. contribution a \<ge> contribution b) cs \<and>
         (\<exists>p base. pipeline self = Some p \<and> build_baseline self instance = Inr base \<and>
            (\<forall>c\<in>set cs. feature c \<in> fst ` set groups \<and>
               contribution c
                 = \<bar>sk_predict p (copy_column (feature c) instance base) - sk_predict p base\<bar> \<and>
               (direction c = ''+'' \<or> direction c = ''-'')))"
proof -
  from assms obtain p base where p: "pipeline self = Some p"
    and b: "build_baseline self instance = Inr base"
    and cs: "cs = take 5 (sort_contribs (map (\<lambda>g. contrib_of p instance base (fst g)) groups))"
    by (rule local_contributions_InrD)
  have len: "length cs \<le> 5" by (simp add: cs)
  have srt: "sorted_wrt (\<lambda>a b. contribution a \<ge> contribution b) cs"
    unfolding cs by (rule sorted_wrt_take) (rule sort_contribs_sorted)
  have mem: "feature c \<in> fst ` set groups \<and>
             contribution c
               = \<bar>sk_predict p (copy_column (feature c) instance base) - sk_predict p base\<bar> \<and>
             (direction c = ''+'' \<or> direction c = ''-'')" if "c \<in> set cs" for c
  proof -
    from that have "c \<in> set (map (\<lambda>g. contrib_of p instance base (fst g)) groups)"
      unfolding cs using set_take_subset set_sort_contribs by fastforce
    then obtain g where "g \<in> set groups" "c = contrib_of p instance base (fst g)" by auto
    then show ?thesis by (auto simp: contrib_of_def variant_delta_def)
  qed
  from len srt p b mem show ?thesis by blast
qed

theorem local_contributions_top5_witness:
  "local_contributions example_model vistara_instance = Inr vistara_top5 \<and>
   length vistara_top5 = 5 \<and>
   map contribution vistara_top5 = [3, 2, 0, 0, 0] \<and>
   map direction vistara_top5 = [''+'', ''-'', ''+'', ''+'', ''+'']"
  using local_contributions_top5 [OF vistara_local_contributions] vistara_local_contributions
  by (simp add: vistara_top5_def)

text \<open>
  Claim C8. For every input instance that has the columns airline, departure_time,
  arrival_time and duration, the baseline built by \<open>local_contributions\<close> has, in every
  row, airline, departure time-band and arrival time-band equal to "Unknown" and duration
  equal to the global median of the route medians; every other field of the row (class,
  stops, days-left, origin city, destination city) is the input's, and the columns are the
  input's.
\<close>

theorem baseline_frame:
  assumes "build_baseline self instance = Inr base"
      and "set [''airline'', ''departure_time'', ''arrival_time'', ''duration'']
             \<subseteq> set (columns instance)"
  shows "\<exists>rm. route_medians self = Some rm \<and> columns base = columns instance \<and>
           length (rows base) = length (rows instance) \<and>
           (\<forall>i < length (rows instance).
              (rows base ! i) ''airline'' = Str ''Unknown'' \<and>
              (rows base ! i) ''departure_time'' = Str ''Unknown'' \<and>
              (rows base ! i) ''arrival_time'' = Str ''Unknown'' \<and>
              (rows base ! i) ''duration'' = Num (global_duration_median rm) \<and>
              (\<forall>c. c \<notin> {''airline'', ''departure_time'', ''arrival_time'', ''duration''} \<longrightarrow>
                   (rows base ! i) c = (rows instance ! i) c))"
proof -
  from build_baseline_rows [OF assms] obtain rm where
    rm: "route_medians self = Some rm" and cols: "columns base = columns instance" and
    rws: "rows base = map (\<lambda>r. r(''airline'' := Str ''Unknown'',
                                  ''departure_time'' := Str ''Unknown'',
                                  ''arrival_time'' := Str ''Unknown'',
                                  ''duration'' := Num (global_duration_median rm)))
                          (rows instance)"
    by blast
  show ?thesis
    using rm cols by (intro exI [of _ rm]) (simp add: rws)
qed

theorem baseline_frame_witness:
  "build_baseline example_model vistara_instance = Inr example_base \<and>
   (rows vistara_instance ! 0) ''airline'' = Str ''Vistara'' \<and>
   (rows example_base ! 0) ''airline'' = Str ''Unknown'' \<and>
   (rows vistara_instance ! 0) ''duration'' = Num 1 \<and>
   (rows example_base ! 0) ''duration'' = Num 3 \<and>
   (rows example_base ! 0) ''source_city'' = Str ''Delhi'' \<and>
   (rows example_base ! 0) ''days_left'' = Num 10"
proof -
  have c: "set [''airline'', ''departure_time'', ''arrival_time'', ''duration'']
             \<subseteq> set (columns vistara_instance)"
    by (simp add: vistara_instance_def feature_row_def)
  show ?thesis
    using baseline_frame [OF vistara_baseline c] vistara_baseline
    by (simp add: vistara_instance_def example_base_def feature_row_def vistara_request_def
        example_request_def or_unknown_def)
qed

text \<open>
  Claim C10. For every input instance and every feature group whose variant prediction
  equals the baseline prediction (delta 0): the record the loop builds for that group has
  magnitude 0 and direction "+", and so has every record of that group that
  \<open>local_contributions\<close> returns. A zero delta is never reported as "-".
\<close>

theorem zero_delta_direction:
  assumes "pipeline self = Some p" and "build_baseline self instance = Inr base"
      and "g \<in> set groups"
      and "sk_predict p (copy_column (fst g) instance base) = sk_predict p base"
  shows "(\<forall>contribs.
            contribs_loop self instance base (sk_predict p base) groups [] = Inr contribs \<longrightarrow>
            (\<exists>c\<in>set contribs. feature c = fst g) \<and>
            (\<forall>c\<in>set contribs. feature c = fst g \<longrightarrow>
               contribution c = 0 \<and> direction c = ''+'')) \<and>
         (\<forall>cs. local_contributions self instance = Inr cs \<longrightarrow>
            (\<forall>c\<in>set cs. feature c = fst g \<longrightarrow> contribution c = 0 \<and> direction c = ''+''))"
proof -
  let ?all = "map (\<lambda>g. contrib_of p instance base (fst g)) groups"
  have zero: "variant_delta p instance base (fst g) = 0"
    using assms(4) by (simp add: variant_delta_def)
  have rec: "contribution c = 0 \<and> direction c = ''+''"
    if "c \<in> set ?all" and "feature c = fst g" for c
  proof -
    from that(1) obtain g' where "c = contrib_of p instance base (fst g')" by auto
    with that(2) have "c = contrib_of p instance base (fst g)"
      by (simp add: contrib_of_def)
    then show ?thesis using zero by (simp add: contrib_of_def)
  qed
  have ex: "\<exists>c\<in>set ?all. feature c = fst g"
    using assms(3) by (auto simp: contrib_of_def intro!: bexI [of _ "contrib_of p instance base (fst g)"])
  have loop: "contribs = ?all"
    if "contribs_loop self instance base (sk_predict p base) groups [] = Inr contribs"
    for contribs
    using that contribs_loop_single [OF assms(1) groups_single, of "instance" base "[]"]
    by (auto split: if_splits)
  have ret: "set cs \<subseteq> set ?all" if "local_contributions self instance = Inr cs" for cs
  proof -
    from that local_contributions_eq [OF assms(1) assms(2)]
    have "cs = take 5 (sort_contribs ?all)" by (auto split: if_splits)
    then show ?thesis
      using set_take_subset [of 5 "sort_contribs ?all"] set_sort_contribs [of ?all] by simp
  qed
  show ?thesis
    using rec ex loop ret by blast
qed

theorem zero_delta_direction_witness:
  "sk_predict example_pipeline (copy_column ''class'' vistara_instance example_base)
     = sk_predict example_pipeline example_base \<and>
   local_contributions example_model vistara_instance = Inr vistara_top5 \<and>
   vistara_top5 ! 2 = \<lparr>feature = ''class'', contribution = 0, direction = ''+''\<rparr>"
proof -
  have g: "(''class'', [''class'']) \<in> set groups"
    by (simp add: groups_def)
  have d: "sk_predict example_pipeline
             (copy_column (fst (''class'', [''class''])) vistara_instance example_base)
           = sk_predict example_pipeline example_base"
    by (simp add: example_pipeline_def example_base_def vistara_instance_def feature_row_def
        copy_column_def example_price_def vistara_request_def example_request_def or_unknown_def)
  show ?thesis
    using zero_delta_direction [OF example_pipeline_loaded vistara_baseline g d]
          vistara_local_contributions d
    by (simp add: vistara_top5_def)
qed

section \<open>Properties of the training path\<close>

subsection \<open>Route medians\<close>

lemma map_of_add_to_group:
  "map_of (add_to_group k v gs) k' =
     (if k' = k then Some ((case map_of gs k of None \<Rightarrow> [] | Some vs \<Rightarrow> vs) @ [v])
      else map_of gs k')"
  by (induction k v gs rule: add_to_group.induct) auto

lemma map_of_fold_group:
  "map_of (fold group_step rs gs) k =
     (let ds = List.map_filter known_duration (filter (\<lambda>r. route_key r = Some k) rs)
      in case map_of gs k of
           None \<Rightarrow> if ds = [] then None else Some ds
         | Some vs \<Rightarrow> Some (vs @ ds))"
proof (induction rs arbitrary: gs)
  case Nil
  then show ?case by (simp add: map_filter_simps split: option.splits)
next
  case (Cons r rs)
  show ?case
    unfolding fold_simps Cons.IH
    by (auto simp: group_step_def map_of_add_to_group map_filter_simps Let_def
        split: option.splits)
qed

lemma map_filter_dropna:
  "List.map_filter known_duration (filter P (dropna_duration rs)) =
   List.map_filter known_duration (filter P rs)"
  by (induction rs) (auto simp: dropna_duration_def map_filter_simps split: option.splits)

lemma map_of_groupby:
  "map_of (groupby_duration (dropna_duration (rows df))) k =
     (if route_durations df k = [] then None else Some (route_durations df k))"
  by (simp add: groupby_duration_def map_of_fold_group route_durations_def map_filter_dropna
      Let_def)

lemma training_row_simps:
  "route_key (training_row src dst dur) = Some (src, dst)"
  "known_duration (training_row src dst (Num x)) = Some x"
  "known_duration (training_row src dst NaN) = None"
  by (simp_all add: training_row_def route_key_def known_duration_def)

lemma median_2_4_6: "median [6, 2, 4] = 4"
  by (simp add: median_def)

text \<open>
  Claim C5, as stated, fails for a route all of whose records lack a duration: the route
  is observed in the dataset, and the table has no entry for it.
\<close>

theorem observed_route_without_entry:
  "route_key (rows missing_duration_frame ! 0) = Some (''Delhi'', ''Mumbai'') \<and>
   route_to_duration_median (build_route_medians missing_duration_frame) (''Delhi'', ''Mumbai'')
     = None"
  by (simp add: missing_duration_frame_def training_row_simps build_route_medians_def
      dropna_duration_def groupby_duration_def Let_def)

text \<open>
  Claim C5, amended. For every training frame with the columns source_city,
  destination_city and duration: the table maps each (origin, destination) pair that has
  at least one record with a known duration to the median of the known durations of that
  pair's records, and has no entry for any other pair (also not for a pair observed only
  with missing durations); the global median is the median of all known durations, and
  exactly 2.0 when no record has a known duration.
\<close>

theorem route_medians_table:
  assumes "set [''source_city'', ''destination_city'', ''duration''] \<subseteq> set (columns df)"
  shows "route_to_duration_median (build_route_medians df) k =
           (if route_durations df k = [] then None else Some (median (route_durations df k))) \<and>
         global_duration_median (build_route_medians df) =
           (if all_durations df = [] then 2 else median (all_durations df))"
  using assms
  by (simp add: build_route_medians_def Let_def map_of_map map_of_groupby all_durations_def)

theorem route_medians_table_witness:
  "route_durations example_training_frame (''Delhi'', ''Mumbai'') = [6, 2, 4] \<and>
   route_to_duration_median (build_route_medians example_training_frame) (''Delhi'', ''Mumbai'')
     = Some 4 \<and>
   route_to_duration_median (build_route_medians example_training_frame) (''Mumbai'', ''Delhi'')
     = None \<and>
   global_duration_median (build_route_medians example_training_frame) = 4 \<and>
   global_duration_median (build_route_medians missing_duration_frame) = 2"
proof -
  have c: "set [''source_city'', ''destination_city'', ''duration'']
             \<subseteq> set (columns example_training_frame)"
          "set [''source_city'', ''destination_city'', ''duration'']
             \<subseteq> set (columns missing_duration_frame)"
    by (simp_all add: example_training_frame_def missing_duration_frame_def)
  have d: "route_durations example_training_frame (''Delhi'', ''Mumbai'') = [6, 2, 4]"
          "route_durations example_training_frame (''Mumbai'', ''Delhi'') = []"
          "all_durations example_training_frame = [6, 2, 4]"
          "all_durations missing_duration_frame = []"
    by (simp_all add: route_durations_def all_durations_def example_training_frame_def
        missing_duration_frame_def training_row_simps map_filter_simps)
  show ?thesis
    using route_medians_table [OF c(1), of "(''Delhi'', ''Mumbai'')"]
          route_medians_table [OF c(1), of "(''Mumbai'', ''Delhi'')"]
          route_medians_table [OF c(2), of "(''Delhi'', ''Mumbai'')"]
    by (simp add: d median_2_4_6)
qed

subsection \<open>Category normalisation\<close>

lemma normalize_column_frame:
  "columns (normalize_column ext ca df) = columns df \<and>
   length (rows (normalize_column ext ca df)) = length (rows df)"
  by (cases ca) (simp add: normalize_column_def)

lemma fold_normalize_columns:
  "columns (fold (normalize_column ext) cas df) = columns df \<and>
   length (rows (fold (normalize_column ext) cas df)) = length (rows df)"
  by (induction cas arbitrary: df) (simp_all add: normalize_column_frame)

lemma normalize_column_cell:
  assumes "i < length (rows df)"
  shows "(rows (normalize_column ext (col, allowed) df) ! i) c =
           (if c = col \<and> col \<in> set (columns df)
            then normalize_value ext allowed ((rows df ! i) c)
            else (rows df ! i) c)"
  using assms by (simp add: normalize_column_def)

lemma fold_normalize_cell:
  assumes "i < length (rows df)" and "distinct (map fst cas)"
  shows "(rows (fold (normalize_column ext) cas df) ! i) c =
           (case map_of cas c of
              Some allowed \<Rightarrow> if c \<in> set (columns df)
                              then normalize_value ext allowed ((rows df ! i) c)
                              else (rows df ! i) c
            | None \<Rightarrow> (rows df ! i) c)"
  using assms
proof (induction cas arbitrary: df)
  case Nil
  then show ?case by simp
next
  case (Cons ca cas)
  obtain col allowed where ca: "ca = (col, allowed)" by (cases ca)
  let ?df = "normalize_column ext (col, allowed) df"
  have i: "i < length (rows ?df)"
    using Cons.prems(1) normalize_column_frame [of ext "(col, allowed)" df] by simp
  have d: "distinct (map fst cas)" and notin: "col \<notin> fst ` set cas"
    using Cons.prems(2) by (auto simp: ca)
  have none: "map_of cas col = None"
    using notin by (simp add: map_of_eq_None_iff)
  have cols: "columns ?df = columns df"
    using normalize_column_frame [of ext "(col, allowed)" df] by simp
  show ?case
    using Cons.IH [OF i d] Cons.prems(1) none
    by (auto simp: ca cols normalize_column_cell split: option.splits)
qed

lemma map_codes_cell:
  assumes "map_codes m col df = Inr df'"
  shows "columns df' = columns df \<and> length (rows df') = length (rows df) \<and>
         (\<forall>i c. i < length (rows df) \<and> c \<noteq> col \<longrightarrow> (rows df' ! i) c = (rows df ! i) c)"
  using assms by (auto simp: map_codes_def split: if_splits)

lemma map_cells_cell:
  "columns (map_cells col f df) = columns df \<and>
   length (rows (map_cells col f df)) = length (rows df) \<and>
   (\<forall>i c. i < length (rows df) \<and> c \<noteq> col \<longrightarrow>
      (rows (map_cells col f df) ! i) c = (rows df ! i) c)"
  by (auto simp: map_cells_def)

lemma prepare_categorical_cell:
  assumes "prepare_training_frame ext df = Inr df'"
      and "(col, allowed) \<in> set categorical_columns"
      and "col \<in> set (columns df)"
      and "i < length (rows df)"
  shows "length (rows df') = length (rows df) \<and>
         (rows df' ! i) col = normalize_value ext allowed ((rows df ! i) col)"
proof -
  let ?df1 = "drop_columns (filter (\<lambda>col. col \<in> set (columns df)) [''Unnamed: 0'', ''flight'']) df"
  let ?df2 = "fold (normalize_column ext) categorical_columns ?df1"
  from assms(1) obtain df3 df4 where
    s3: "map_codes STOPS_MAP ''stops'' ?df2 = Inr df3" and
    s4: "map_codes CLASS_MAP ''class'' df3 = Inr df4" and
    s5: "df' = map_cells ''duration'' (to_numeric ext)
                 (map_cells ''days_left'' (clean_days_left ext) df4)"
    by (auto simp: prepare_training_frame_def Let_def split: sum.splits)
  have col_ne: "col \<noteq> ''stops''" "col \<noteq> ''class''" "col \<noteq> ''duration''"
               "col \<noteq> ''days_left''" "col \<noteq> ''Unnamed: 0''" "col \<noteq> ''flight''"
    using assms(2) by (auto simp: categorical_columns_def)
  have r1: "rows ?df1 = rows df" by (simp add: drop_columns_def)
  have c1: "col \<in> set (columns ?df1)"
    using assms(3) col_ne by (auto simp: drop_columns_def)
  have dist: "distinct (map fst categorical_columns)"
    by (simp add: categorical_columns_def)
  have mo: "map_of categorical_columns col = Some allowed"
    using assms(2) dist by simp
  have i1: "i < length (rows ?df1)" using assms(4) r1 by simp
  have cell2: "(rows ?df2 ! i) col = normalize_value ext allowed ((rows df ! i) col)"
    using fold_normalize_cell [OF i1 dist, of ext col] mo c1 r1 by simp
  have len2: "length (rows ?df2) = length (rows df)"
    using fold_normalize_columns [of ext categorical_columns ?df1] r1 by simp
  have len3: "length (rows df3) = length (rows df)"
   and cell3: "(rows df3 ! i) col = (rows ?df2 ! i) col"
    using map_codes_cell [OF s3] len2 assms(4) col_ne by auto
  have len4: "length (rows df4) = length (rows df)"
   and cell4: "(rows df4 ! i) col = (rows df3 ! i) col"
    using map_codes_cell [OF s4] len3 assms(4) col_ne by auto
  let ?df5 = "map_cells ''days_left'' (clean_days_left ext) df4"
  have len5: "length (rows ?df5) = length (rows df)"
   and cell5: "(rows ?df5 ! i) col = (rows df4 ! i) col"
    using map_cells_cell [of "''days_left''" "clean_days_left ext" df4] len4 assms(4) col_ne
    by auto
  have len6: "length (rows df') = length (rows df)"
   and cell6: "(rows df' ! i) col = (rows ?df5 ! i) col"
    using map_cells_cell [of "''duration''" "to_numeric ext" ?df5] len5 assms(4) col_ne
    unfolding s5 by auto
  show ?thesis
    using len6 cell6 cell5 cell4 cell3 cell2 by simp
qed

lemma nan_not_allowed:
  "(col, allowed) \<in> set categorical_columns \<Longrightarrow> ''nan'' \<notin> set allowed"
  by (auto simp: categorical_columns_def ALLOWED_AIRLINES_def ALLOWED_CITIES_def
      ALLOWED_TIMES_def)

text \<open>When the preparation succeeds.\<close>

lemma drop_columns_present:
  "columns (drop_columns (filter (\<lambda>col. col \<in> set (columns df)) cs) df)
     = filter (\<lambda>c. c \<notin> set cs) (columns df)"
  by (auto simp: drop_columns_def intro: filter_cong)

lemma prepare_training_frame_succeeds:
  assumes "list_all (\<lambda>r. lookup_code STOPS_MAP (r ''stops'') \<noteq> None) (rows df)"
      and "list_all (\<lambda>r. lookup_code CLASS_MAP (r ''class'') \<noteq> None) (rows df)"
  shows "\<exists>df'. prepare_training_frame ext df = Inr df' \<and>
           columns df' = filter (\<lambda>c. c \<notin> set [''Unnamed: 0'', ''flight'']) (columns df) \<and>
           map (\<lambda>r. r ''price'') (rows df') = map (\<lambda>r. r ''price'') (rows df)"
proof -
  let ?df1 = "drop_columns (filter (\<lambda>col. col \<in> set (columns df)) [''Unnamed: 0'', ''flight'']) df"
  let ?df2 = "fold (normalize_column ext) categorical_columns ?df1"
  have r1: "rows ?df1 = rows df" by (simp add: drop_columns_def)
  have dist: "distinct (map fst categorical_columns)"
    by (simp add: categorical_columns_def)
  have none: "map_of categorical_columns ''stops'' = None"
             "map_of categorical_columns ''class'' = None"
             "map_of categorical_columns ''price'' = None"
    by (simp_all add: categorical_columns_def)
  have len2: "length (rows ?df2) = length (rows df)"
    using fold_normalize_columns [of ext categorical_columns ?df1] r1 by simp
  have col2: "columns ?df2 = columns ?df1"
    using fold_normalize_columns [of ext categorical_columns ?df1] by simp
  have cell2: "(rows ?df2 ! i) c = (rows df ! i) c"
    if "i < length (rows df)" and "map_of categorical_columns c = None" for i c
    using fold_normalize_cell [of i ?df1 categorical_columns ext c] that dist r1 by simp
  have ok3: "list_all (\<lambda>r. lookup_code STOPS_MAP (r ''stops'') \<noteq> None) (rows ?df2)"
    using assms(1) len2 cell2 [OF _ none(1)] by (simp add: list_all_length)
  define df3 where
    "df3 = (if ''stops'' \<in> set (columns ?df2)
            then ?df2\<lparr>rows := map (\<lambda>r. r(''stops'' :=
                          Num (of_int (the (lookup_code STOPS_MAP (r ''stops''))))))
                        (rows ?df2)\<rparr>
            else ?df2)"
  have s3: "map_codes STOPS_MAP ''stops'' ?df2 = Inr df3"
    using ok3 by (simp add: map_codes_def df3_def)
  have f3: "columns df3 = columns ?df2" "length (rows df3) = length (rows df)"
           "\<forall>i c. i < length (rows df) \<and> c \<noteq> ''stops'' \<longrightarrow> (rows df3 ! i) c = (rows ?df2 ! i) c"
    using map_codes_cell [OF s3] len2 by simp_all
  have ok4: "list_all (\<lambda>r. lookup_code CLASS_MAP (r ''class'') \<noteq> None) (rows df3)"
    using assms(2) f3 cell2 [OF _ none(2)] by (simp add: list_all_length)
  define df4 where
    "df4 = (if ''class'' \<in> set (columns df3)
            then df3\<lparr>rows := map (\<lambda>r. r(''class'' :=
                          Num (of_int (the (lookup_code CLASS_MAP (r ''class''))))))
                        (rows df3)\<rparr>
            else df3)"
  have s4: "map_codes CLASS_MAP ''class'' df3 = Inr df4"
    using ok4 by (simp add: map_codes_def df4_def)
  have f4: "columns df4 = columns df3" "length (rows df4) = length (rows df)"
           "\<forall>i c. i < length (rows df) \<and> c \<noteq> ''class'' \<longrightarrow> (rows df4 ! i) c = (rows df3 ! i) c"
    using map_codes_cell [OF s4] f3(2) by simp_all
  let ?df5 = "map_cells ''days_left'' (clean_days_left ext) df4"
  let ?df6 = "map_cells ''duration'' (to_numeric ext) ?df5"
  have f5: "columns ?df5 = columns df4" "length (rows ?df5) = length (rows df)"
           "\<forall>i c. i < length (rows df) \<and> c \<noteq> ''days_left'' \<longrightarrow>
              (rows ?df5 ! i) c = (rows df4 ! i) c"
    using map_cells_cell [of "''days_left''" "clean_days_left ext" df4] f4(2) by simp_all
  have f6: "columns ?df6 = columns ?df5" "length (rows ?df6) = length (rows df)"
           "\<forall>i c. i < length (rows df) \<and> c \<noteq> ''duration'' \<longrightarrow>
              (rows ?df6 ! i) c = (rows ?df5 ! i) c"
    using map_cells_cell [of "''duration''" "to_numeric ext" ?df5] f5(2) by simp_all
  have p: "prepare_training_frame ext df = Inr ?df6"
    by (simp only: prepare_training_frame_def Let_def s3 s4 sum.case)
  have c: "columns ?df6 = filter (\<lambda>c. c \<notin> set [''Unnamed: 0'', ''flight'']) (columns df)"
    using f6(1) f5(1) f4(1) f3(1) col2 drop_columns_present [of df "[''Unnamed: 0'', ''flight'']"]
    by simp
  have price: "(rows ?df6 ! i) ''price'' = (rows df ! i) ''price''" if "i < length (rows df)" for i
    using that f6(3) f5(3) f4(3) f3(3) cell2 [OF that none(3)] by simp
  have m: "map (\<lambda>r. r ''price'') (rows ?df6) = map (\<lambda>r. r ''price'') (rows df)"
    using f6(2) price by (intro nth_equalityI) simp_all
  from p c m show ?thesis by blast
qed

lemma example_prepared:
  "\<exists>df'. prepare_training_frame example_externals example_raw_frame = Inr df' \<and>
         ''price'' \<in> set (columns df') \<and>
         map (\<lambda>r. r ''price'') (rows df') = [Num 5955, Num 9000]"
proof -
  have a: "list_all (\<lambda>r. lookup_code STOPS_MAP (r ''stops'') \<noteq> None) (rows example_raw_frame)"
    by (simp add: example_raw_frame_def lookup_code_def STOPS_MAP_def)
  have b: "list_all (\<lambda>r. lookup_code CLASS_MAP (r ''class'') \<noteq> None) (rows example_raw_frame)"
    by (simp add: example_raw_frame_def lookup_code_def CLASS_MAP_def)
  have c: "''price'' \<in> set (filter (\<lambda>c. c \<notin> set [''Unnamed: 0'', ''flight''])
                               (columns example_raw_frame))"
    by (simp add: example_raw_frame_def)
  have d: "map (\<lambda>r. r ''price'') (rows example_raw_frame) = [Num 5955, Num 9000]"
    by (simp add: example_raw_frame_def)
  from prepare_training_frame_succeeds [OF a b, of example_externals] c d
  show ?thesis by auto
qed

text \<open>
  Claim C6. For each of the five categorical fields with its vocabulary (airline with the
  six carriers and "Unknown"; origin city and destination city with the six cities;
  departure time-band and arrival time-band with the six bands and "Unknown") and every
  raw value of that field in the dataset: the prepared frame holds the value unchanged when
  it is a string of the vocabulary, and exactly "Unknown" for every value outside it. A
  missing value is outside every vocabulary; a number is compared by its string form.
\<close>

theorem categorical_normalization:
  assumes "prepare_training_frame ext df = Inr df'"
      and "(col, allowed) \<in>
               {(''airline'',
                 [''Vistara'', ''Air_India'', ''Indigo'', ''GO_FIRST'', ''AirAsia'', ''SpiceJet'', ''Unknown'']),
                (''source_city'',
                 [''Delhi'', ''Mumbai'', ''Bangalore'', ''Kolkata'', ''Hyderabad'', ''Chennai'']),
                (''destination_city'',
                 [''Delhi'', ''Mumbai'', ''Bangalore'', ''Kolkata'', ''Hyderabad'', ''Chennai'']),
                (''departure_time'',
                 [''Early_Morning'', ''Morning'', ''Afternoon'', ''Evening'', ''Night'', ''Late_Night'', ''Unknown'']),
                (''arrival_time'',
                 [''Early_Morning'', ''Morning'', ''Afternoon'', ''Evening'', ''Night'', ''Late_Night'', ''Unknown''])}"
      and "col \<in> set (columns df)"
      and "i < length (rows df)"
  shows "(\<forall>s. (rows df ! i) col = Str s \<longrightarrow>
            (rows df' ! i) col = (if s \<in> set allowed then Str s else Str ''Unknown'')) \<and>
         ((rows df ! i) col = NaN \<longrightarrow> (rows df' ! i) col = Str ''Unknown'') \<and>
         (\<forall>x. (rows df ! i) col = Num x \<longrightarrow>
            (rows df' ! i) col = (if py_str ext x \<in> set allowed then Str (py_str ext x)
                                  else Str ''Unknown''))"
proof -
  have m: "(col, allowed) \<in> set categorical_columns"
    using assms(2)
    by (auto simp: categorical_columns_def ALLOWED_AIRLINES_def ALLOWED_CITIES_def
        ALLOWED_TIMES_def)
  show ?thesis
    using prepare_categorical_cell [OF assms(1) m assms(3) assms(4)] nan_not_allowed [OF m]
    by (auto simp: normalize_value_def astype_str_def Let_def)
qed

theorem categorical_normalization_witness:
  "\<exists>df'. prepare_training_frame example_externals example_raw_frame = Inr df' \<and>
         (rows df' ! 0) ''airline'' = Str ''Vistara'' \<and>
         (rows df' ! 1) ''airline'' = Str ''Unknown'' \<and>
         (rows df' ! 0) ''source_city'' = Str ''Delhi'' \<and>
         (rows df' ! 1) ''source_city'' = Str ''Unknown'' \<and>
         (rows df' ! 0) ''destination_city'' = Str ''Mumbai'' \<and>
         (rows df' ! 1) ''destination_city'' = Str ''Unknown'' \<and>
         (rows df' ! 0) ''departure_time'' = Str ''Morning'' \<and>
         (rows df' ! 1) ''departure_time'' = Str ''Unknown'' \<and>
         (rows df' ! 0) ''arrival_time'' = Str ''Afternoon'' \<and>
         (rows df' ! 1) ''arrival_time'' = Str ''Unknown''"
proof -
  from example_prepared obtain df' where
    p: "prepare_training_frame example_externals example_raw_frame = Inr df'"
    by blast
  have c: "''airline'' \<in> set (columns example_raw_frame)"
          "''source_city'' \<in> set (columns example_raw_frame)"
          "''destination_city'' \<in> set (columns example_raw_frame)"
          "''departure_time'' \<in> set (columns example_raw_frame)"
          "''arrival_time'' \<in> set (columns example_raw_frame)"
    by (simp_all add: example_raw_frame_def)
  have i: "0 < length (rows example_raw_frame)" "1 < length (rows example_raw_frame)"
    by (simp_all add: example_raw_frame_def)
  have a0: "(rows df' ! 0) ''airline'' = Str ''Vistara''"
    using categorical_normalization
            [OF p _ c(1) i(1), of "[''Vistara'', ''Air_India'', ''Indigo'', ''GO_FIRST'', ''AirAsia'', ''SpiceJet'', ''Unknown'']"]
    by (simp add: example_raw_frame_def)
  have a1: "(rows df' ! 1) ''airline'' = Str ''Unknown''"
    using categorical_normalization
            [OF p _ c(1) i(2), of "[''Vistara'', ''Air_India'', ''Indigo'', ''GO_FIRST'', ''AirAsia'', ''SpiceJet'', ''Unknown'']"]
    by (simp add: example_raw_frame_def)
  have s0: "(rows df' ! 0) ''source_city'' = Str ''Delhi''"
    using categorical_normalization
            [OF p _ c(2) i(1), of "[''Delhi'', ''Mumbai'', ''Bangalore'', ''Kolkata'', ''Hyderabad'', ''Chennai'']"]
    by (simp add: example_raw_frame_def)
  have s1: "(rows df' ! 1) ''source_city'' = Str ''Unknown''"
    using categorical_normalization
            [OF p _ c(2) i(2), of "[''Delhi'', ''Mumbai'', ''Bangalore'', ''Kolkata'', ''Hyderabad'', ''Chennai'']"]
    by (simp add: example_raw_frame_def)
  have d0: "(rows df' ! 0) ''destination_city'' = Str ''Mumbai''"
    using categorical_normalization
            [OF p _ c(3) i(1), of "[''Delhi'', ''Mumbai'', ''Bangalore'', ''Kolkata'', ''Hyderabad'', ''Chennai'']"]
    by (simp add: example_raw_frame_def)
  have d1: "(rows df' ! 1) ''destination_city'' = Str ''Unknown''"
    using categorical_normalization
            [OF p _ c(3) i(2), of "[''Delhi'', ''Mumbai'', ''Bangalore'', ''Kolkata'', ''Hyderabad'', ''Chennai'']"]
    by (simp add: example_raw_frame_def)
  have t0: "(rows df' ! 0) ''departure_time'' = Str ''Morning''"
    using categorical_normalization
            [OF p _ c(4) i(1), of "[''Early_Morning'', ''Morning'', ''Afternoon'', ''Evening'', ''Night'', ''Late_Night'', ''Unknown'']"]
    by (simp add: example_raw_frame_def)
  have t1: "(rows df' ! 1) ''departure_time'' = Str ''Unknown''"
    using categorical_normalization
            [OF p _ c(4) i(2), of "[''Early_Morning'', ''Morning'', ''Afternoon'', ''Evening'', ''Night'', ''Late_Night'', ''Unknown'']"]
    by (simp add: example_raw_frame_def)
  have r0: "(rows df' ! 0) ''arrival_time'' = Str ''Afternoon''"
    using categorical_normalization
            [OF p _ c(5) i(1), of "[''Early_Morning'', ''Morning'', ''Afternoon'', ''Evening'', ''Night'', ''Late_Night'', ''Unknown'']"]
    by (simp add: example_raw_frame_def)
  have r1: "(rows df' ! 1) ''arrival_time'' = Str ''Unknown''"
    using categorical_normalization
            [OF p _ c(5) i(2), of "[''Early_Morning'', ''Morning'', ''Afternoon'', ''Evening'', ''Night'', ''Late_Night'', ''Unknown'']"]
    by (simp add: example_raw_frame_def)
  from p a0 a1 s0 s1 d0 d1 t0 t1 r0 r1 show ?thesis by blast
qed

subsection \<open>Loading or training once\<close>

lemma cold_world_loads:
  "load_or_train_model example_externals cold_world
     = Inr (cold_world\<lparr>MODEL_SINGLETON := loaded_model\<rparr>, loaded_model)"
  by (simp add: load_or_train_model_def train_or_load_def cold_world_def init_model_def
      loaded_model_def example_artifact_def Let_def)

lemma train_fresh_succeeds:
  assumes "csv_file w = Some (df_raw, t)"
      and "prepare_training_frame ext df_raw = Inr df"
      and "''price'' \<in> set (columns df)"
      and "astype_float ext (map (\<lambda>r. r ''price'') (rows df)) = Inr y"
      and "fit ext (drop_columns [''price''] df) y = Inr p"
  shows "\<exists>w'. train_fresh ext w self = Inr w' \<and>
           pipeline (MODEL_SINGLETON w') = Some p \<and>
           route_medians (MODEL_SINGLETON w') = Some (build_route_medians df) \<and>
           model_version (MODEL_SINGLETON w') = Some (Rf (py_int (clock w)))"
  by (simp add: train_fresh_def assms Let_def)

lemma stale_world_trains:
  "\<exists>w1 m1. load_or_train_model example_externals stale_world = Inr (w1, m1) \<and>
           model_version m1 = Some (Rf 9)"
proof -
  from example_prepared obtain df' where
    p: "prepare_training_frame example_externals example_raw_frame = Inr df'"
       "''price'' \<in> set (columns df')"
       "map (\<lambda>r. r ''price'') (rows df') = [Num 5955, Num 9000]"
    by (elim exE conjE)
  let ?self = "(MODEL_SINGLETON stale_world)\<lparr>model_path := Some ''backend/model.joblib''\<rparr>"
  have c: "csv_file stale_world = Some (example_raw_frame, 8)"
    by (simp add: stale_world_def)
  have m: "model_file stale_world = Some (example_artifact, 7)"
    by (simp add: stale_world_def cold_world_def)
  have k: "clock stale_world = 9"
    by (simp add: stale_world_def cold_world_def)
  have s: "pipeline (MODEL_SINGLETON stale_world) = None"
    by (simp add: stale_world_def cold_world_def init_model_def)
  have y: "astype_float example_externals (map (\<lambda>r. r ''price'') (rows df')) = Inr [5955, 9000]"
    by (simp add: p(3) astype_float_def to_numeric_def)
  have f: "fit example_externals (drop_columns [''price''] df') [5955, 9000] = Inr example_pipeline"
    by (simp add: example_externals_def)
  from train_fresh_succeeds [OF c p(1) p(2) y f, of ?self] obtain w1 where
    w1: "train_fresh example_externals stale_world ?self = Inr w1"
        "model_version (MODEL_SINGLETON w1) = Some (Rf (py_int (clock stale_world)))"
    by blast
  have t: "train_or_load example_externals stale_world = Inr w1"
    using w1(1) by (simp add: train_or_load_def c m Let_def)
  have "load_or_train_model example_externals stale_world = Inr (w1, MODEL_SINGLETON w1)"
    by (simp add: load_or_train_model_def s t)
  moreover have "model_version (MODEL_SINGLETON w1) = Some (Rf 9)"
    using w1(2) by (simp add: k py_int_def)
  ultimately show ?thesis by blast
qed

text \<open>
  Claim C7. When a call of \<open>load_or_train_model\<close> has returned a model, the next call
  returns the same model, hence the same version tag, and changes nothing: no file is
  written and the singleton is not touched, so nothing is retrained. This holds whatever
  happened to the dataset, the model file or the clock between the two calls, as long as
  the process and its singleton are the same.
\<close>

theorem load_or_train_model_idempotent:
  assumes "load_or_train_model ext w = Inr (w1, m1)"
  shows "load_or_train_model ext w1 = Inr (w1, m1) \<and>
         (\<forall>w2 m2. load_or_train_model ext w1 = Inr (w2, m2) \<longrightarrow>
            model_version m2 = model_version m1 \<and> w2 = w1) \<and>
         (\<forall>w2. MODEL_SINGLETON w2 = MODEL_SINGLETON w1 \<longrightarrow>
            load_or_train_model ext w2 = Inr (w2, m1))"
  using load_or_train_model_result [OF assms]
  by (auto simp: load_or_train_model_def)

theorem load_or_train_model_idempotent_witness:
  "load_or_train_model example_externals cold_world
     = Inr (cold_world\<lparr>MODEL_SINGLETON := loaded_model\<rparr>, loaded_model) \<and>
   load_or_train_model example_externals (cold_world\<lparr>MODEL_SINGLETON := loaded_model\<rparr>)
     = Inr (cold_world\<lparr>MODEL_SINGLETON := loaded_model\<rparr>, loaded_model) \<and>
   model_version loaded_model = Some (Rf 1700000000) \<and>
   (\<exists>w1 m1. load_or_train_model example_externals stale_world = Inr (w1, m1) \<and>
            model_version m1 = Some (Rf 9) \<and>
            load_or_train_model example_externals w1 = Inr (w1, m1))"
proof -
  from stale_world_trains obtain w1 m1 where
    t: "load_or_train_model example_externals stale_world = Inr (w1, m1)"
       "model_version m1 = Some (Rf 9)"
    by blast
  have a: "load_or_train_model example_externals (cold_world\<lparr>MODEL_SINGLETON := loaded_model\<rparr>)
             = Inr (cold_world\<lparr>MODEL_SINGLETON := loaded_model\<rparr>, loaded_model)"
    using load_or_train_model_idempotent [OF cold_world_loads] by blast
  have b: "load_or_train_model example_externals w1 = Inr (w1, m1)"
    using load_or_train_model_idempotent [OF t(1)] by blast
  have v: "model_version loaded_model = Some (Rf 1700000000)"
    by (simp add: loaded_model_def)
  from cold_world_loads a v t b show ?thesis by blast
qed

end
